theory Spec2Isabelle
  imports Main
begin

section \<open>Python strings and integers\<close>

text \<open>
  A Python \<open>str\<close> is modelled as a \<open>string\<close>; a \<open>char\<close> is read as the code point
  with the same number, so the model covers text whose code points are below 256.
  \<open>str.strip\<close> and \<open>str.lstrip\<close> without argument remove the characters for which
  \<open>str.isspace\<close> holds: below 256 these are 9 to 13, 28 to 32, 133 and 160.
\<close>

definition py_isspace :: "char \<Rightarrow> bool" where
  "py_isspace c =
     (let n = (of_char c :: nat)
      in (9 \<le> n \<and> n \<le> 13) \<or> (28 \<le> n \<and> n \<le> 32) \<or> n = 133 \<or> n = 160)"

definition lstrip :: "string \<Rightarrow> string" where
  "lstrip s = dropWhile py_isspace s"

definition rstrip :: "string \<Rightarrow> string" where
  "rstrip s = rev (dropWhile py_isspace (rev s))"

definition strip :: "string \<Rightarrow> string" where
  "strip s = rstrip (lstrip s)"

definition startswith :: "string \<Rightarrow> string \<Rightarrow> bool" where
  "startswith s p = (take (length p) s = p)"

text \<open>
  \<open>int(s)\<close> on a \<open>str\<close>, base 10, as CPython reads it: optional white space (here the
  characters 9 to 13, 32, 133 and 160: the separators 28 to 31 that \<open>strip\<close> removes are
  not accepted), an optional sign, then decimal digits with single underscores between
  them, then optional white space. More than \<open>int_max_str_digits\<close> digit characters
  (the interpreter's default limit) are refused. Every refusal is a \<open>ValueError\<close>.
\<close>

definition int_isspace :: "char \<Rightarrow> bool" where
  "int_isspace c =
     (let n = (of_char c :: nat)
      in (9 \<le> n \<and> n \<le> 13) \<or> n = 32 \<or> n = 133 \<or> n = 160)"

definition is_digit :: "char \<Rightarrow> bool" where
  "is_digit c = (let n = (of_char c :: nat) in 48 \<le> n \<and> n \<le> 57)"

definition digit_value :: "char \<Rightarrow> nat" where
  "digit_value c = of_char c - 48"

definition int_max_str_digits :: nat where
  "int_max_str_digits = 4300"

text \<open>
  The scan over digits and underscores: \<open>prev\<close> is the character read last, \<open>n\<close> the
  number of digits read, \<open>v\<close> their value. Two underscores in a row end the scan with
  an error; any other character ends it with what is left of the text.
\<close>

fun scan_digits :: "char option \<Rightarrow> nat \<Rightarrow> nat \<Rightarrow> string \<Rightarrow> (char option \<times> nat \<times> nat \<times> string) option" where
  "scan_digits prev n v [] = Some (prev, n, v, [])"
| "scan_digits prev n v (c # cs) =
     (if c = CHR ''_'' then
        (if prev = Some (CHR ''_'') then None else scan_digits (Some c) n v cs)
      else if is_digit c then scan_digits (Some c) (Suc n) (10 * v + digit_value c) cs
      else Some (prev, n, v, c # cs))"

definition py_int :: "string \<Rightarrow> int option" where
  "py_int s =
     (let s1 = dropWhile int_isspace s;
          negative = startswith s1 ''-'';
          s2 = (if startswith s1 ''+'' \<or> startswith s1 ''-'' then tl s1 else s1)
      in if startswith s2 ''_'' then None
         else case scan_digits None 0 0 s2 of
                None \<Rightarrow> None
              | Some (prev, n, v, rest) \<Rightarrow>
                  if prev = Some (CHR ''_'') \<or> n = 0 then None
                  else if dropWhile int_isspace rest \<noteq> [] then None
                  else if int_max_str_digits < n then None
                  else Some (if negative then - int v else int v))"

text \<open>\<open>str(n)\<close> of an integer, also what an f-string or \<open>%s\<close> writes for it.\<close>

definition digit_char :: "nat \<Rightarrow> char" where
  "digit_char d = char_of (48 + d)"

fun dec_digits :: "nat \<Rightarrow> string" where
  "dec_digits n = (if n < 10 then [digit_char n] else dec_digits (n div 10) @ [digit_char (n mod 10)])"

declare dec_digits.simps [simp del]

definition py_str :: "int \<Rightarrow> string" where
  "py_str n = (if n < 0 then CHR ''-'' # dec_digits (nat (- n)) else dec_digits (nat n))"

section \<open>Exceptions, JSON values, HTTP\<close>

datatype py_exc =
    KeyError | ValueError | AttributeError | TypeError | EOFError
  | OSError | CsvError | RequestException

text \<open>
  How a run ends: \<open>main\<close> returns, \<open>sys.exit\<close> is called, or an exception reaches the
  top. \<open>sys.exit(1)\<close> and \<open>sys.exit("message")\<close> both give the exit status 1, as an
  uncaught exception does.
\<close>

datatype ending = Returned | SysExit nat | Uncaught py_exc

fun exit_status :: "ending \<Rightarrow> nat" where
  "exit_status Returned = 0"
| "exit_status (SysExit n) = n"
| "exit_status (Uncaught e) = 1"

text \<open>
  A decoded JSON value (numbers are integers here; an object is a list of members with
  distinct keys), and Python's truth value of it, which \<open>if not token\<close> tests.
\<close>

datatype json = JNull | JBool bool | JInt int | JStr string | JList "json list" | JDict "(string \<times> json) list"

fun truthy :: "json \<Rightarrow> bool" where
  "truthy JNull = False"
| "truthy (JBool b) = b"
| "truthy (JInt n) = (n \<noteq> 0)"
| "truthy (JStr s) = (s \<noteq> [])"
| "truthy (JList xs) = (xs \<noteq> [])"
| "truthy (JDict d) = (d \<noteq> [])"

text \<open>
  The body of a response as \<open>response.json()\<close> sees it, and what a call of
  \<open>requests.post\<close> or \<open>requests.put\<close> gives: an exception of the library
  (\<open>RequestException\<close>, here \<open>ConnectionFailed\<close>), a response with its status code, or
  an exception that is no \<open>RequestException\<close>. The one such exception the library is
  known for at this place is \<open>ValueError\<close>: of the call itself (a redirect that cannot
  be parsed), or of \<open>response.text\<close>, which both functions read for the log line right
  after the call (the \<open>UnicodeError\<close> of a charset that decodes nothing). In both cases
  the request was sent and nothing is logged about a response: the model has one
  outcome, \<open>ValueErrorRaised\<close>, for them.
\<close>

datatype body = NotJson | Json json

datatype http_outcome = ConnectionFailed | ValueErrorRaised | Response int body

text \<open>
  \<open>response.raise_for_status()\<close> raises \<open>HTTPError\<close>, a \<open>RequestException\<close>, for the
  status codes 400 to 599 and for no other.
\<close>

definition raise_for_status :: "int \<Rightarrow> bool" where
  "raise_for_status status = (400 \<le> status \<and> status < 600)"

record post_request =
  post_url :: string
  post_headers :: "(string \<times> string) list"
  post_data :: "(string \<times> string) list"

text \<open>
  \<open>put_bearer\<close> is the token that the f-string \<open>"Bearer {bearer_token}"\<close> writes into the
  \<open>Authorization\<close> header; \<open>put_json\<close> is the \<open>json=\<close> payload.
\<close>

record put_request =
  put_url :: string
  put_bearer :: json
  put_content_type :: string
  put_json :: "(string \<times> json) list"

datatype http_request = Post post_request | Put put_request

section \<open>CSV rows\<close>

text \<open>
  A row as \<open>csv.DictReader\<close> gives it is a dict: under each field name the text of the
  field, or \<open>None\<close> (the \<open>restval\<close>) when the record was too short; under the key \<open>None\<close>
  (the \<open>restkey\<close>) the list of the fields beyond the last name, when there are any.
\<close>

datatype cell = CNone | CStr string | CList "string list"

type_synonym row = "(string option \<times> cell) list"

definition FIELDNAMES :: "string list" where
  "FIELDNAMES = [''venue_id'', ''ap_serial'', ''port_id'', ''vlan_id'']"

definition dict_row :: "string list \<Rightarrow> string list \<Rightarrow> row" where
  "dict_row fieldnames r =
     (let d = zip (map Some fieldnames) (map CStr r);
          lf = length fieldnames;
          lr = length r
      in if lf < lr then d @ [(None, CList (drop lf r))]
         else if lr < lf then d @ map (\<lambda>key. (Some key, CNone)) (drop lr fieldnames)
         else d)"

definition getitem :: "row \<Rightarrow> string \<Rightarrow> py_exc + cell" where
  "getitem r key = (case map_of r (Some key) of None \<Rightarrow> Inl KeyError | Some c \<Rightarrow> Inr c)"

text \<open>\<open>x.strip()\<close> and \<open>int(x)\<close> on a value of the dict: \<open>None\<close> has no \<open>strip\<close>
  (\<open>AttributeError\<close>) and is no argument for \<open>int\<close> (\<open>TypeError\<close>), nor is a list.\<close>

fun cell_strip :: "cell \<Rightarrow> py_exc + string" where
  "cell_strip (CStr s) = Inr (strip s)"
| "cell_strip CNone = Inl AttributeError"
| "cell_strip (CList xs) = Inl AttributeError"

fun cell_int :: "cell \<Rightarrow> py_exc + int" where
  "cell_int (CStr s) = (case py_int s of None \<Rightarrow> Inl ValueError | Some n \<Rightarrow> Inr n)"
| "cell_int CNone = Inl TypeError"
| "cell_int (CList xs) = Inl TypeError"

text \<open>Sequencing of steps that may raise: the first exception ends the sequence.\<close>

fun and_then :: "py_exc + 'a \<Rightarrow> ('a \<Rightarrow> py_exc + 'b) \<Rightarrow> py_exc + 'b" where
  "and_then (Inl e) f = Inl e"
| "and_then (Inr x) f = f x"

text \<open>
  What the reader hands to the loop, one item at a time: a record (the list of its
  fields), or an exception raised while reading (\<open>csv.Error\<close>, a decoding error).
\<close>

datatype reader_item = Record "string list" | ReadError

section \<open>What the program does\<close>

text \<open>
  The trace of a run: lines of the log file with their level, format and arguments,
  lines printed on the console, the message \<open>sys.exit\<close> writes, files opened, prompts
  answered, HTTP requests sent.
\<close>

datatype level = INFO | WARNING | ERROR

datatype arg = AStr string | AInt int | AExc py_exc | ARow row | ABody body | APayload "(string \<times> json) list"

datatype event =
    Log level string "arg list"
  | Print string "arg list"
  | Stderr string
  | OpenFile string
  | Input string
  | Http http_request

type_synonym trace = "event list"

datatype text_file = NoFile | Unreadable | Lines "string list"

text \<open>
  The surroundings of a run: the command line (\<open>sys.argv\<close>), the file named
  \<open>credentials\<close>, the lines typed at the prompts, the file system for the CSV, the
  reader of the \<open>csv\<close> module (from the lines it is given to the items it yields), and
  the server, which answers a request knowing everything that happened before it.
\<close>

record env =
  argv :: "string list"
  credentials :: text_file
  stdin :: "string list"
  files :: "string \<Rightarrow> text_file"
  csv_reader :: "string list \<Rightarrow> reader_item list"
  server :: "trace \<Rightarrow> http_request \<Rightarrow> http_outcome"

subsection \<open>Authentication\<close>

text \<open>
  \<open>get_bearer_token\<close>: one POST to the token endpoint of the tenant. A failure of the
  call and the \<open>HTTPError\<close> of \<open>raise_for_status\<close> are caught as \<open>RequestException\<close>,
  as is the decoding error of \<open>response.json()\<close>; all end the run through \<open>sys.exit\<close>
  with a message. A body that is JSON but no object has no \<open>get\<close>: that
  \<open>AttributeError\<close> is caught nowhere, nor is a \<open>ValueError\<close> of the library. A token
  that is absent or false ends the run too.
\<close>

definition token_request :: "string \<Rightarrow> string \<Rightarrow> string \<Rightarrow> http_request" where
  "token_request tenant_id client_id client_secret =
     Post \<lparr>post_url = ''https://api.ruckus.cloud/oauth2/token/'' @ tenant_id,
           post_headers = [(''Content-Type'', ''application/x-www-form-urlencoded'')],
           post_data = [(''grant_type'', ''client_credentials''),
                        (''client_id'', client_id),
                        (''client_secret'', client_secret),
                        (''audience'', ''https://api.ruckus.cloud'')]\<rparr>"

definition auth_failed :: "trace \<Rightarrow> (ending + json) \<times> trace" where
  "auth_failed tr =
     (Inl (SysExit 1),
      tr @ [Log ERROR ''Authentication failed: %s'' [AExc RequestException],
            Stderr ''Authentication failed. Check app.log for details.''])"

definition get_bearer_token :: "env \<Rightarrow> string \<Rightarrow> string \<Rightarrow> string \<Rightarrow> trace \<Rightarrow> (ending + json) \<times> trace" where
  "get_bearer_token e tenant_id client_id client_secret tr =
     (let auth_url = ''https://api.ruckus.cloud/oauth2/token/'' @ tenant_id;
          req = token_request tenant_id client_id client_secret;
          tr1 = tr @ [Log INFO ''Requesting JWT token from %s'' [AStr auth_url]]
      in case server e tr1 req of
           ConnectionFailed \<Rightarrow> auth_failed (tr1 @ [Http req])
         | ValueErrorRaised \<Rightarrow> (Inl (Uncaught ValueError), tr1 @ [Http req])
         | Response status b \<Rightarrow>
             (let tr2 = tr1 @ [Http req, Log INFO ''Auth response: %s %s'' [AInt status, ABody b]]
              in if raise_for_status status then auth_failed tr2
                 else case b of
                        NotJson \<Rightarrow> auth_failed tr2
                      | Json (JDict d) \<Rightarrow>
                          (let token = (case map_of d ''access_token'' of None \<Rightarrow> JNull | Some t \<Rightarrow> t)
                           in if \<not> truthy token then
                                (Inl (SysExit 1),
                                 tr2 @ [Log ERROR ''No access_token in response: %s'' [ABody b],
                                        Stderr ''Authentication failed: No access_token in response.''])
                              else (Inr token, tr2 @ [Log INFO ''Successfully obtained JWT token.'' []]))
                      | Json _ \<Rightarrow> (Inl (Uncaught AttributeError), tr2)))"

subsection \<open>The port configurator\<close>

text \<open>
  \<open>configure_ap_port\<close>: one PUT; a failure of the call and the \<open>HTTPError\<close> of
  \<open>raise_for_status\<close> are caught as \<open>RequestException\<close> and reported. A \<open>ValueError\<close>
  of the library is not caught here and leaves the function. The function returns
  nothing: the model returns the exception that leaves it, if any, and the trace.
\<close>

definition port_request :: "string \<Rightarrow> string \<Rightarrow> int \<Rightarrow> int \<Rightarrow> json \<Rightarrow> put_request" where
  "port_request venue_id ap_serial port vlan_id bearer_token =
     (let base_url = ''https://api.ruckus.cloud/venues/'' @ venue_id @ ''/aps/'' @ ap_serial;
          port_settings_url = base_url @ ''/lanPorts/'' @ py_str port @ ''/settings'';
          payload = [(''useVenueSettings'', JBool False),
                     (''enabled'', JBool True),
                     (''overwriteUntagId'', JInt vlan_id),
                     (''overwriteVlanMembers'', JStr (py_str vlan_id))]
      in \<lparr>put_url = port_settings_url, put_bearer = bearer_token,
          put_content_type = ''application/json'', put_json = payload\<rparr>)"

definition configure_failed :: "string \<Rightarrow> string \<Rightarrow> int \<Rightarrow> event list" where
  "configure_failed venue_id ap_serial port =
     [Log ERROR ''Failed to configure port %s on %s at venue %s: %s''
        [AInt port, AStr ap_serial, AStr venue_id, AExc RequestException],
      Print ''Failed to configure port {port} on {ap_serial} at venue {venue_id}: {e}''
        [AInt port, AStr ap_serial, AStr venue_id, AExc RequestException]]"

definition configure_succeeded :: "string \<Rightarrow> string \<Rightarrow> int \<Rightarrow> event list" where
  "configure_succeeded venue_id ap_serial port =
     [Log INFO ''Successfully configured AP %s port %s at venue %s''
        [AStr ap_serial, AInt port, AStr venue_id],
      Print ''Configured AP {ap_serial} port {port} at venue {venue_id}''
        [AStr ap_serial, AInt port, AStr venue_id]]"

definition configure_ap_port :: "env \<Rightarrow> string \<Rightarrow> string \<Rightarrow> string \<Rightarrow> int \<Rightarrow> int \<Rightarrow> json \<Rightarrow> trace \<Rightarrow> py_exc option \<times> trace" where
  "configure_ap_port e tenant_id venue_id ap_serial port vlan_id bearer_token tr =
     (let req = port_request venue_id ap_serial port vlan_id bearer_token;
          tr1 = tr @ [Log INFO ''PUT %s | Payload: %s'' [AStr (put_url req), APayload (put_json req)]]
      in case server e tr1 (Put req) of
           ConnectionFailed \<Rightarrow>
             (None, tr1 @ [Http (Put req)] @ configure_failed venue_id ap_serial port)
         | ValueErrorRaised \<Rightarrow> (Some ValueError, tr1 @ [Http (Put req)])
         | Response status b \<Rightarrow>
             (let tr2 = tr1 @ [Http (Put req), Log INFO ''Response [%s]: %s'' [AInt status, ABody b]]
              in if raise_for_status status then (None, tr2 @ configure_failed venue_id ap_serial port)
                 else (None, tr2 @ configure_succeeded venue_id ap_serial port)))"

subsection \<open>One row\<close>

text \<open>
  The four assignments that open the \<open>try\<close> of the loop (extract and convert), in the
  order of the source; they have no effect but the exception they may raise.
\<close>

definition parse_row :: "row \<Rightarrow> py_exc + (string \<times> string \<times> int \<times> int)" where
  "parse_row r =
     and_then (and_then (getitem r ''venue_id'') cell_strip) (\<lambda>venue_id.
     and_then (and_then (getitem r ''ap_serial'') cell_strip) (\<lambda>ap_serial.
     and_then (and_then (getitem r ''port_id'') cell_int) (\<lambda>port.
     and_then (and_then (getitem r ''vlan_id'') cell_int) (\<lambda>vlan_id.
     Inr (venue_id, ap_serial, port, vlan_id)))))"

definition processing :: "nat \<Rightarrow> row \<Rightarrow> event" where
  "processing idx r = Log INFO ''Processing row %d: %s'' [AInt (int idx), ARow r]"

definition skip_missing :: "nat \<Rightarrow> row \<Rightarrow> event list" where
  "skip_missing idx r =
     [Log WARNING ''Missing venue_id or ap_serial in row %d: %s'' [AInt (int idx), ARow r],
      Print ''Skipping row {idx}: Missing venue_id or ap_serial.'' [AInt (int idx)]]"

definition skip_vlan :: "nat \<Rightarrow> row \<Rightarrow> int \<Rightarrow> event list" where
  "skip_vlan idx r vlan_id =
     [Log WARNING ''Invalid VLAN ID in row %d: %s'' [AInt (int idx), ARow r],
      Print ''Skipping row {idx}: Invalid VLAN ID {vlan_id}.'' [AInt (int idx), AInt vlan_id]]"

definition skip_error :: "nat \<Rightarrow> row \<Rightarrow> py_exc \<Rightarrow> event list" where
  "skip_error idx r ex =
     [Log ERROR ''Error processing row %d: %s | Row: %s'' [AInt (int idx), AExc ex, ARow r],
      Print ''Skipping row {idx}: {e}'' [AInt (int idx), AExc ex]]"

text \<open>
  The body of the \<open>try\<close> of the loop: the exception it raises, if any, and the trace.
  \<open>continue\<close> and the end of the body both lead to the next row. The call of
  \<open>configure_ap_port\<close> is the last statement of the body: what leaves the call leaves
  the body.
\<close>

definition try_row :: "env \<Rightarrow> string \<Rightarrow> json \<Rightarrow> nat \<Rightarrow> row \<Rightarrow> trace \<Rightarrow> py_exc option \<times> trace" where
  "try_row e tenant_id bearer_token idx r tr =
     (let tr1 = tr @ [processing idx r]
      in case parse_row r of
           Inl ex \<Rightarrow> (Some ex, tr1)
         | Inr (venue_id, ap_serial, port, vlan_id) \<Rightarrow>
             if venue_id = [] \<or> ap_serial = [] then (None, tr1 @ skip_missing idx r)
             else if \<not> (1 \<le> vlan_id \<and> vlan_id \<le> 4094) then (None, tr1 @ skip_vlan idx r vlan_id)
             else configure_ap_port e tenant_id venue_id ap_serial port vlan_id bearer_token tr1)"

text \<open>
  The \<open>try\<close> with its handler \<open>except (KeyError, ValueError)\<close>: these two are reported
  as a skip, any other exception leaves the loop.
\<close>

definition loop_body :: "env \<Rightarrow> string \<Rightarrow> json \<Rightarrow> nat \<Rightarrow> row \<Rightarrow> trace \<Rightarrow> py_exc option \<times> trace" where
  "loop_body e tenant_id bearer_token idx r tr =
     (case try_row e tenant_id bearer_token idx r tr of
        (None, tr1) \<Rightarrow> (None, tr1)
      | (Some ex, tr1) \<Rightarrow>
          if ex = KeyError \<or> ex = ValueError then (None, tr1 @ skip_error idx r ex)
          else (Some ex, tr1))"

subsection \<open>The loop over the CSV\<close>

text \<open>
  \<open>for idx, row in enumerate(reader, 1)\<close> over the \<open>DictReader\<close>: a record without
  fields (a blank line) is passed over by the \<open>DictReader\<close> and gets no index; an
  exception of the reader, like one that leaves \<open>loop_body\<close>, ends the loop.
\<close>

fun for_rows :: "env \<Rightarrow> string \<Rightarrow> json \<Rightarrow> nat \<Rightarrow> reader_item list \<Rightarrow> trace \<Rightarrow> py_exc option \<times> trace" where
  "for_rows e tenant_id bearer_token idx [] tr = (None, tr)"
| "for_rows e tenant_id bearer_token idx (ReadError # items) tr = (Some CsvError, tr)"
| "for_rows e tenant_id bearer_token idx (Record r # items) tr =
     (if r = [] then for_rows e tenant_id bearer_token idx items tr
      else case loop_body e tenant_id bearer_token idx (dict_row FIELDNAMES r) tr of
             (None, tr1) \<Rightarrow> for_rows e tenant_id bearer_token (Suc idx) items tr1
           | (Some ex, tr1) \<Rightarrow> (Some ex, tr1))"

subsection \<open>The comment filter\<close>

text \<open>
  \<^verbatim>\<open>
  def skip_comments(file_obj):
      for line in file_obj:
          if not line.lstrip().startswith('#'):
              yield line
              break
      yield from file_obj
  \<close>
  \<open>file_obj\<close> is the open file, an iterator: the argument of the model is the list of
  the lines it still has to give, the result is the list of the lines the generator
  yields. The loop takes lines off the iterator until one is not a comment, yields that
  one and leaves the loop; \<open>yield from\<close> then yields what the iterator has left. When
  every line is a comment the loop ends with the iterator exhausted.
\<close>

definition is_comment :: "string \<Rightarrow> bool" where
  "is_comment line = startswith (lstrip line) ''#''"

fun skip_comments :: "string list \<Rightarrow> string list" where
  "skip_comments [] = []"
| "skip_comments (line # file_obj) =
     (if \<not> is_comment line then line # file_obj else skip_comments file_obj)"

subsection \<open>Credentials\<close>

text \<open>
  The block of \<open>main\<close> that loads the credentials: from the file \<open>credentials\<close> when
  there is one, else from three prompts. \<open>readlines\<close> gives the lines of the file, each
  is stripped, and their number is compared with 3. At the prompts every answer must be
  non-empty; an end of input raises \<open>EOFError\<close>, which nothing catches.
\<close>

definition credential_handling :: "env \<Rightarrow> trace \<Rightarrow> (ending + (string \<times> string \<times> string)) \<times> trace" where
  "credential_handling e tr =
     (case credentials e of
        Lines ls \<Rightarrow>
          (let tr1 = tr @ [Log INFO ''Loading credentials from file: %s'' [AStr ''credentials''],
                           OpenFile ''credentials''];
               lines = map strip ls
           in if 3 \<le> length lines then (Inr (lines ! 0, lines ! 1, lines ! 2), tr1)
              else (Inl (SysExit 1),
                    tr1 @ [Log ERROR ''Credentials file missing required lines.'' [],
                           Stderr ''Credentials file must have at least 3 lines: Tenant ID, Client ID, Client Secret.'']))
      | Unreadable \<Rightarrow>
          (Inl (SysExit 1),
           tr @ [Log INFO ''Loading credentials from file: %s'' [AStr ''credentials''],
                 OpenFile ''credentials'',
                 Log ERROR ''Error reading credentials file: %s'' [AExc OSError],
                 Stderr ''Error reading credentials file. Check app.log for details.''])
      | NoFile \<Rightarrow>
          (let tr1 = tr @ [Log INFO ''Prompting user for credentials.'' []]
           in case stdin e of
                tenant_id # client_id # client_secret # _ \<Rightarrow>
                  (let tr2 = tr1 @ [Input ''Enter Tenant ID: '', Input ''Enter Client ID: '',
                                    Input ''Enter Client Secret: '']
                   in if tenant_id = [] \<or> client_id = [] \<or> client_secret = [] then
                        (Inl (SysExit 1),
                         tr2 @ [Log ERROR ''Missing credential input from user.'' [],
                                Stderr ''Tenant ID, Client ID, and Client Secret are required.''])
                      else (Inr (tenant_id, client_id, client_secret), tr2))
              | answers \<Rightarrow>
                  (Inl (Uncaught EOFError),
                   tr1 @ map Input (take (Suc (length answers))
                           [''Enter Tenant ID: '', ''Enter Client ID: '', ''Enter Client Secret: '']))))"

subsection \<open>The CSV and the whole run\<close>

text \<open>
  The block of \<open>main\<close> under \<open>CSV Processing\<close>: \<open>FileNotFoundError\<close> at \<open>open\<close> and
  every other exception (at \<open>open\<close> or out of the loop) are reported and end the run
  with \<open>sys.exit(1)\<close>.
\<close>

definition unexpected :: "py_exc \<Rightarrow> event list" where
  "unexpected ex =
     [Log ERROR ''Unexpected error opening CSV: %s'' [AExc ex],
      Print ''Unexpected error opening CSV: {e}'' [AExc ex]]"

definition csv_processing :: "env \<Rightarrow> string \<Rightarrow> string \<Rightarrow> json \<Rightarrow> trace \<Rightarrow> ending \<times> trace" where
  "csv_processing e csv_file tenant_id bearer_token tr =
     (case files e csv_file of
        NoFile \<Rightarrow>
          (SysExit 1,
           tr @ [OpenFile csv_file,
                 Log ERROR ''CSV file not found: %s'' [AStr csv_file],
                 Print ''CSV file {csv_file} not found'' [AStr csv_file]])
      | Unreadable \<Rightarrow> (SysExit 1, tr @ [OpenFile csv_file] @ unexpected OSError)
      | Lines csvfile \<Rightarrow>
          (let tr1 = tr @ [OpenFile csv_file, Log INFO ''Opened CSV file: %s'' [AStr csv_file]];
               reader = csv_reader e (skip_comments csvfile)
           in case for_rows e tenant_id bearer_token 1 reader tr1 of
                (None, tr2) \<Rightarrow> (Returned, tr2)
              | (Some ex, tr2) \<Rightarrow> (SysExit 1, tr2 @ unexpected ex)))"

definition main :: "env \<Rightarrow> ending \<times> trace" where
  "main e =
     (if length (argv e) \<noteq> 2 then
        (SysExit 1,
         [Print ''Usage: python configure_ap_ports.py <filename.csv>'' [],
          Log ERROR ''Incorrect usage: missing CSV filename argument.'' []])
      else
        (let csv_file = argv e ! 1
         in case credential_handling e [] of
              (Inl ex, tr) \<Rightarrow> (ex, tr)
            | (Inr (tenant_id, client_id, client_secret), tr) \<Rightarrow>
                (case get_bearer_token e tenant_id client_id client_secret tr of
                   (Inl ex, tr1) \<Rightarrow> (ex, tr1)
                 | (Inr bearer_token, tr1) \<Rightarrow> csv_processing e csv_file tenant_id bearer_token tr1)))"

subsection \<open>Reading a trace\<close>

fun requests :: "trace \<Rightarrow> http_request list" where
  "requests [] = []"
| "requests (Http r # tr) = r # requests tr"
| "requests (ev # tr) = requests tr"

fun opened :: "trace \<Rightarrow> string list" where
  "opened [] = []"
| "opened (OpenFile f # tr) = f # opened tr"
| "opened (ev # tr) = opened tr"

text \<open>The rows whose processing began: the lines \<open>Processing row\<close> of the log.\<close>

definition is_processing :: "event \<Rightarrow> bool" where
  "is_processing ev = (case ev of Log l f a \<Rightarrow> f = ''Processing row %d: %s'' | _ \<Rightarrow> False)"

definition processed :: "trace \<Rightarrow> event list" where
  "processed tr = filter is_processing tr"

text \<open>
  The answer of the server to the token request of \<open>get_bearer_token\<close> and to the
  request of \<open>configure_ap_port\<close>, and the answers that these functions treat as a
  failure: a \<open>RequestException\<close> of the call, or a status for which \<open>raise_for_status\<close>
  raises.
\<close>

definition token_answer :: "env \<Rightarrow> string \<Rightarrow> string \<Rightarrow> string \<Rightarrow> trace \<Rightarrow> http_outcome" where
  "token_answer e tenant_id client_id client_secret tr =
     server e
       (tr @ [Log INFO ''Requesting JWT token from %s''
                [AStr (''https://api.ruckus.cloud/oauth2/token/'' @ tenant_id)]])
       (token_request tenant_id client_id client_secret)"

definition put_answer :: "env \<Rightarrow> string \<Rightarrow> string \<Rightarrow> int \<Rightarrow> int \<Rightarrow> json \<Rightarrow> trace \<Rightarrow> http_outcome" where
  "put_answer e venue_id ap_serial port vlan_id bearer_token tr =
     (let req = port_request venue_id ap_serial port vlan_id bearer_token
      in server e
           (tr @ [Log INFO ''PUT %s | Payload: %s'' [AStr (put_url req), APayload (put_json req)]])
           (Put req))"

fun failed :: "http_outcome \<Rightarrow> bool" where
  "failed ConnectionFailed = True"
| "failed ValueErrorRaised = False"
| "failed (Response status b) = raise_for_status status"

text \<open>
  A record that \<open>loop_body\<close> can read: a blank one, which is passed over, or one with a
  text under each of the four field names.
\<close>

fun complete :: "reader_item \<Rightarrow> bool" where
  "complete (Record r) = (r = [] \<or> 4 \<le> length r)"
| "complete ReadError = False"

section \<open>Example surroundings\<close>

text \<open>
  A reader for lines without quote characters, with no carriage return or line feed
  but at their end: the line terminator is taken off and the rest is split at the
  commas; an empty line is a record without fields. On such lines this is what
  \<open>csv.reader\<close> yields.
\<close>

fun split_commas :: "string \<Rightarrow> string list" where
  "split_commas [] = [] # []"
| "split_commas (c # cs) =
     (if c = CHR '','' then [] # split_commas cs
      else case split_commas cs of
             [] \<Rightarrow> [c] # []
           | f # fs \<Rightarrow> (c # f) # fs)"

definition is_eol :: "char \<Rightarrow> bool" where
  "is_eol c = (c = CHR 0x0A \<or> c = CHR 0x0D)"

definition plain_record :: "string \<Rightarrow> reader_item" where
  "plain_record line =
     (let t = rev (dropWhile is_eol (rev line))
      in if t = [] then Record [] else Record (split_commas t))"

definition plain_reader :: "string list \<Rightarrow> reader_item list" where
  "plain_reader ls = map plain_record ls"

text \<open>A server that gives the same answer to every request.\<close>

definition always :: "http_outcome \<Rightarrow> trace \<Rightarrow> http_request \<Rightarrow> http_outcome" where
  "always r tr req = r"

text \<open>
  A server that gives a token (answer 200 with an object that has \<open>access_token\<close>) to
  a POST and the given answer to a PUT.
\<close>

fun token_then :: "http_outcome \<Rightarrow> trace \<Rightarrow> http_request \<Rightarrow> http_outcome" where
  "token_then r tr (Post q) = Response 200 (Json (JDict [(''access_token'', JStr ''tok'')]))"
| "token_then r tr (Put q) = r"

definition one_file :: "string \<Rightarrow> string list \<Rightarrow> string \<Rightarrow> text_file" where
  "one_file name ls f = (if f = name then Lines ls else NoFile)"

text \<open>
  A run with one argument, the file \<open>ports.csv\<close> with the given lines, the given
  credentials file and the given server.
\<close>

definition run_env :: "text_file \<Rightarrow> string list \<Rightarrow> (trace \<Rightarrow> http_request \<Rightarrow> http_outcome) \<Rightarrow> env" where
  "run_env creds csv srv =
     \<lparr>argv = [''configure_ap_ports.py'', ''ports.csv''],
      credentials = creds,
      stdin = [],
      files = one_file ''ports.csv'' csv,
      csv_reader = plain_reader,
      server = srv\<rparr>"


section \<open>Properties\<close>

subsection \<open>Traces\<close>

lemma requests_append: "requests (xs @ ys) = requests xs @ requests ys"
  by (induction xs rule: requests.induct) simp_all

lemma opened_append: "opened (xs @ ys) = opened xs @ opened ys"
  by (induction xs rule: opened.induct) simp_all

lemma processed_append: "processed (xs @ ys) = processed xs @ processed ys"
  by (simp add: processed_def)

lemma requests_credential_handling:
  "requests (snd (credential_handling e tr)) = requests tr"
  by (simp add: credential_handling_def Let_def requests_append
      split: text_file.splits list.splits)

lemma processed_credential_handling:
  "processed (snd (credential_handling e tr)) = processed tr"
  by (simp add: credential_handling_def Let_def processed_def is_processing_def
      split: text_file.splits list.splits)

lemma opened_credential_handling:
  "set (opened (snd (credential_handling e tr))) \<subseteq> set (opened tr) \<union> {''credentials''}"
  by (auto simp: credential_handling_def Let_def opened_append
      split: text_file.splits list.splits)

lemma requests_get_bearer_token:
  "requests (snd (get_bearer_token e t c s tr)) = requests tr @ [token_request t c s]"
  by (simp add: get_bearer_token_def auth_failed_def Let_def requests_append
      split: http_outcome.splits body.splits json.splits)

lemma processed_get_bearer_token:
  "processed (snd (get_bearer_token e t c s tr)) = processed tr"
  by (simp add: get_bearer_token_def auth_failed_def Let_def processed_def is_processing_def
      split: http_outcome.splits body.splits json.splits)

lemma opened_get_bearer_token:
  "opened (snd (get_bearer_token e t c s tr)) = opened tr"
  by (simp add: get_bearer_token_def auth_failed_def Let_def opened_append
      split: http_outcome.splits body.splits json.splits)

lemma requests_configure_ap_port:
  "requests (snd (configure_ap_port e tn venue ap port vlan tok tr)) =
     requests tr @ [Put (port_request venue ap port vlan tok)]"
  by (simp add: configure_ap_port_def Let_def requests_append configure_failed_def
      configure_succeeded_def split: http_outcome.splits)

lemma configure_ap_port_extends:
  "\<exists>evs. snd (configure_ap_port e tn venue ap port vlan tok tr) = tr @ evs"
  by (simp add: configure_ap_port_def Let_def split: http_outcome.splits)

lemma configure_ap_port_fst:
  "fst (configure_ap_port e tn venue ap port vlan tok tr) =
     (if put_answer e venue ap port vlan tok tr = ValueErrorRaised then Some ValueError else None)"
  by (simp add: configure_ap_port_def put_answer_def Let_def split: http_outcome.splits)

lemma configure_ap_port_value_error:
  assumes "put_answer e venue_id ap_serial port vlan_id tok tr = ValueErrorRaised"
  shows "configure_ap_port e tn venue_id ap_serial port vlan_id tok tr =
      (Some ValueError,
       tr @ [Log INFO ''PUT %s | Payload: %s''
               [AStr (put_url (port_request venue_id ap_serial port vlan_id tok)),
                APayload (put_json (port_request venue_id ap_serial port vlan_id tok))],
             Http (Put (port_request venue_id ap_serial port vlan_id tok))])"
  using assms
  by (simp add: configure_ap_port_def put_answer_def Let_def split: http_outcome.splits)

lemma configure_ap_port_accepted:
  assumes "put_answer e venue_id ap_serial port vlan_id tok tr = Response status b"
    and "\<not> raise_for_status status"
  shows "configure_ap_port e tn venue_id ap_serial port vlan_id tok tr =
      (None,
       tr @ [Log INFO ''PUT %s | Payload: %s''
               [AStr (put_url (port_request venue_id ap_serial port vlan_id tok)),
                APayload (put_json (port_request venue_id ap_serial port vlan_id tok))],
             Http (Put (port_request venue_id ap_serial port vlan_id tok)),
             Log INFO ''Response [%s]: %s'' [AInt status, ABody b],
             Log INFO ''Successfully configured AP %s port %s at venue %s''
               [AStr ap_serial, AInt port, AStr venue_id],
             Print ''Configured AP {ap_serial} port {port} at venue {venue_id}''
               [AStr ap_serial, AInt port, AStr venue_id]])"
  using assms
  by (simp add: configure_ap_port_def put_answer_def Let_def configure_succeeded_def
      split: http_outcome.splits)

lemma configure_ap_port_failed:
  assumes "failed (put_answer e venue_id ap_serial port vlan_id tok tr)"
  shows "configure_ap_port e tn venue_id ap_serial port vlan_id tok tr =
      (None,
       tr @ [Log INFO ''PUT %s | Payload: %s''
               [AStr (put_url (port_request venue_id ap_serial port vlan_id tok)),
                APayload (put_json (port_request venue_id ap_serial port vlan_id tok))],
             Http (Put (port_request venue_id ap_serial port vlan_id tok))]
          @ (case put_answer e venue_id ap_serial port vlan_id tok tr of
               Response status b \<Rightarrow> [Log INFO ''Response [%s]: %s'' [AInt status, ABody b]]
             | _ \<Rightarrow> [])
          @ [Log ERROR ''Failed to configure port %s on %s at venue %s: %s''
               [AInt port, AStr ap_serial, AStr venue_id, AExc RequestException],
             Print ''Failed to configure port {port} on {ap_serial} at venue {venue_id}: {e}''
               [AInt port, AStr ap_serial, AStr venue_id, AExc RequestException]])"
  using assms
  by (auto simp: configure_ap_port_def put_answer_def Let_def configure_failed_def
      split: http_outcome.splits)

subsection \<open>Evaluating integers and their texts\<close>

lemma digit_chars:
  "digit_char 0 = CHR ''0''" "digit_char 1 = CHR ''1''" "digit_char 2 = CHR ''2''"
  "digit_char 3 = CHR ''3''" "digit_char 4 = CHR ''4''" "digit_char 5 = CHR ''5''"
  "digit_char 6 = CHR ''6''" "digit_char 7 = CHR ''7''" "digit_char 8 = CHR ''8''"
  "digit_char 9 = CHR ''9''" "digit_char (Suc 0) = CHR ''1''"
  by code_simp+

lemmas py_int_eval = py_int_def startswith_def int_isspace_def is_digit_def digit_value_def
  int_max_str_digits_def

lemmas py_str_eval = py_str_def dec_digits.simps digit_chars

subsection \<open>Rows\<close>

text \<open>
  No exception leaves the loop body for a record with four fields or more: its
  integers are parsed first (port, then VLAN), then the identifiers are tested, then
  the range of the VLAN; a \<open>ValueError\<close> out of \<open>configure_ap_port\<close> is handled like one
  of \<open>int\<close>.
\<close>

lemma dict_row_complete:
  "dict_row FIELDNAMES (venue # ap # port_s # vlan_s # extra) =
     [(Some ''venue_id'', CStr venue), (Some ''ap_serial'', CStr ap),
      (Some ''port_id'', CStr port_s), (Some ''vlan_id'', CStr vlan_s)]
     @ (if extra = [] then [] else [(None, CList extra)])"
  by (simp add: dict_row_def FIELDNAMES_def)

lemma parse_row_complete:
  "parse_row (dict_row FIELDNAMES (venue # ap # port_s # vlan_s # extra)) =
     (case py_int port_s of
        None \<Rightarrow> Inl ValueError
      | Some p \<Rightarrow> (case py_int vlan_s of
                     None \<Rightarrow> Inl ValueError
                   | Some v \<Rightarrow> Inr (strip venue, strip ap, p, v)))"
  by (simp add: parse_row_def getitem_def dict_row_complete split: option.splits)

lemma loop_body_handles:
  "(case configure_ap_port e tn a b p v tok t of
      (None, tr1) \<Rightarrow> (None, tr1)
    | (Some ex, tr1) \<Rightarrow>
        if ex = KeyError \<or> ex = ValueError then (None, tr1 @ skip_error idx r ex)
        else (Some ex, tr1)) =
   (None, snd (configure_ap_port e tn a b p v tok t)
          @ (case fst (configure_ap_port e tn a b p v tok t) of
               None \<Rightarrow> []
             | Some ex \<Rightarrow> skip_error idx r ex))"
  using configure_ap_port_fst [of e tn a b p v tok t]
  by (cases "configure_ap_port e tn a b p v tok t") (auto split: if_splits)

lemma loop_body_complete:
  assumes "r = dict_row FIELDNAMES (venue # ap # port_s # vlan_s # extra)"
  shows "loop_body e tn tok idx r tr =
     (None,
      case py_int port_s of
        None \<Rightarrow> tr @ processing idx r # skip_error idx r ValueError
      | Some p \<Rightarrow>
          (case py_int vlan_s of
             None \<Rightarrow> tr @ processing idx r # skip_error idx r ValueError
           | Some v \<Rightarrow>
               if strip venue = [] \<or> strip ap = [] then tr @ processing idx r # skip_missing idx r
               else if v < 1 \<or> 4094 < v then tr @ processing idx r # skip_vlan idx r v
               else snd (configure_ap_port e tn (strip venue) (strip ap) p v tok (tr @ [processing idx r]))
                    @ (case fst (configure_ap_port e tn (strip venue) (strip ap) p v tok
                                   (tr @ [processing idx r])) of
                         None \<Rightarrow> []
                       | Some ex \<Rightarrow> skip_error idx r ex)))"
proof (cases "py_int port_s")
  case None
  then show ?thesis
    unfolding assms by (simp add: loop_body_def try_row_def parse_row_complete)
next
  case port: (Some p)
  show ?thesis
  proof (cases "py_int vlan_s")
    case None
    with port show ?thesis
      unfolding assms by (simp add: loop_body_def try_row_def parse_row_complete)
  next
    case vlan: (Some v)
    show ?thesis
    proof (cases "strip venue = [] \<or> strip ap = [] \<or> v < 1 \<or> 4094 < v")
      case True
      with port vlan show ?thesis
        unfolding assms by (auto simp: loop_body_def try_row_def parse_row_complete)
    next
      case False
      then have t: "try_row e tn tok idx r tr =
          configure_ap_port e tn (strip venue) (strip ap) p v tok (tr @ [processing idx r])"
        using port vlan unfolding assms by (simp add: try_row_def parse_row_complete)
      show ?thesis
        using False port vlan by (simp add: loop_body_def t loop_body_handles)
    qed
  qed
qed

lemma try_row_valid:
  assumes "r = dict_row FIELDNAMES (venue # ap # port_s # vlan_s # extra)"
    and "strip venue \<noteq> []" and "strip ap \<noteq> []"
    and "py_int port_s = Some p" and "py_int vlan_s = Some v"
    and "1 \<le> v" and "v \<le> 4094"
  shows "try_row e tn tok idx r tr =
      configure_ap_port e tn (strip venue) (strip ap) p v tok (tr @ [processing idx r])"
  using assms(2-7) unfolding assms(1)
  by (simp add: try_row_def parse_row_complete Let_def)

lemma row_shapes:
  obtains "r = []" | a where "r = [a]" | a b where "r = [a, b]" | a b c where "r = [a, b, c]"
    | a b c d x where "r = a # b # c # d # x"
proof (cases r)
  case Nil then show ?thesis using that by simp
next
  case r1: (Cons a r1)
  show ?thesis
  proof (cases r1)
    case Nil then show ?thesis using that r1 by simp
  next
    case r2: (Cons b r2)
    show ?thesis
    proof (cases r2)
      case Nil then show ?thesis using that r1 r2 by simp
    next
      case r3: (Cons c r3)
      show ?thesis
      proof (cases r3)
        case Nil then show ?thesis using that r1 r2 r3 by simp
      next
        case (Cons d x) then show ?thesis using that r1 r2 r3 by simp
      qed
    qed
  qed
qed

lemma vlan_present:
  assumes "getitem (dict_row FIELDNAMES r) ''vlan_id'' = Inr (CStr s)"
  shows "\<exists>venue ap port_s extra. r = venue # ap # port_s # s # extra"
  using assms
  by (cases r rule: row_shapes)
    (auto simp: dict_row_def FIELDNAMES_def getitem_def Let_def split: if_splits)

lemma loop_body_one_field:
  "loop_body e tn tok idx (dict_row FIELDNAMES [a]) tr =
     (Some AttributeError, tr @ [processing idx (dict_row FIELDNAMES [a])])"
  by (simp add: loop_body_def try_row_def parse_row_def getitem_def dict_row_def FIELDNAMES_def)

lemma loop_body_two_fields:
  "loop_body e tn tok idx (dict_row FIELDNAMES [a, b]) tr =
     (Some TypeError, tr @ [processing idx (dict_row FIELDNAMES [a, b])])"
  by (simp add: loop_body_def try_row_def parse_row_def getitem_def dict_row_def FIELDNAMES_def)

lemma loop_body_three_fields:
  "loop_body e tn tok idx (dict_row FIELDNAMES [a, b, c]) tr =
     (case py_int c of
        None \<Rightarrow> (None, tr @ processing idx (dict_row FIELDNAMES [a, b, c])
                     # skip_error idx (dict_row FIELDNAMES [a, b, c]) ValueError)
      | Some p \<Rightarrow> (Some TypeError, tr @ [processing idx (dict_row FIELDNAMES [a, b, c])]))"
  by (simp add: loop_body_def try_row_def parse_row_def getitem_def dict_row_def FIELDNAMES_def
      split: option.splits)

lemma loop_body_complete_fst:
  "4 \<le> length r \<Longrightarrow> fst (loop_body e tn tok idx (dict_row FIELDNAMES r) tr) = None"
  by (cases r rule: row_shapes) (simp_all add: loop_body_complete [OF refl])

lemma loop_body_extends:
  "\<exists>evs. snd (loop_body e tn tok idx r tr) = tr @ evs"
proof (cases "parse_row r")
  case (Inl ex)
  then show ?thesis by (simp add: loop_body_def try_row_def)
next
  case (Inr x)
  obtain venue ap port vlan where x: "x = (venue, ap, port, vlan)" by (cases x) auto
  obtain ex tr1 where c: "configure_ap_port e tn venue ap port vlan tok (tr @ [processing idx r]) =
      (ex, tr1)"
    by (cases "configure_ap_port e tn venue ap port vlan tok (tr @ [processing idx r])") auto
  obtain evs where "tr1 = (tr @ [processing idx r]) @ evs"
    using configure_ap_port_extends [of e tn venue ap port vlan tok "tr @ [processing idx r]"] c
    by auto
  with Inr x c show ?thesis
    by (cases ex) (auto simp: loop_body_def try_row_def Let_def)
qed

subsection \<open>The loop and the run\<close>

lemma for_rows_complete:
  "list_all complete items \<Longrightarrow> fst (for_rows e tn tok idx items tr) = None"
proof (induction items arbitrary: idx tr)
  case Nil
  show ?case by simp
next
  case (Cons it items)
  show ?case
  proof (cases it)
    case ReadError
    with Cons.prems show ?thesis by simp
  next
    case (Record r)
    show ?thesis
    proof (cases "r = []")
      case True
      with Cons Record show ?thesis by simp
    next
      case False
      with Cons.prems Record have len: "4 \<le> length r" by simp
      obtain tr1 where lb: "loop_body e tn tok idx (dict_row FIELDNAMES r) tr = (None, tr1)"
        using loop_body_complete_fst [OF len, of e tn tok idx tr]
        by (cases "loop_body e tn tok idx (dict_row FIELDNAMES r) tr") simp
      from Cons.prems have "list_all complete items" by simp
      then show ?thesis
        using Record False lb Cons.IH by simp
    qed
  qed
qed

lemma for_rows_continue:
  assumes "r \<noteq> []" and "fst (loop_body e tn tok idx (dict_row FIELDNAMES r) tr) = None"
  shows "for_rows e tn tok idx (Record r # items) tr =
     for_rows e tn tok (Suc idx) items (snd (loop_body e tn tok idx (dict_row FIELDNAMES r) tr))"
  using assms by (cases "loop_body e tn tok idx (dict_row FIELDNAMES r) tr") simp

lemma for_rows_extends:
  "\<exists>evs. snd (for_rows e tn tok idx items tr) = tr @ evs"
proof (induction e tn tok idx items tr rule: for_rows.induct)
  case (1 e tn tok idx tr)
  show ?case by simp
next
  case (2 e tn tok idx items tr)
  show ?case by simp
next
  case (3 e tn tok idx r items tr)
  show ?case
  proof (cases "r = []")
    case True
    with 3 show ?thesis by simp
  next
    case False
    obtain ex tr1 where lb: "loop_body e tn tok idx (dict_row FIELDNAMES r) tr = (ex, tr1)"
      by (cases "loop_body e tn tok idx (dict_row FIELDNAMES r) tr") auto
    obtain evs where evs: "tr1 = tr @ evs"
      using loop_body_extends [of e tn tok idx "dict_row FIELDNAMES r" tr] lb by auto
    show ?thesis
    proof (cases ex)
      case None
      obtain evs' where "snd (for_rows e tn tok (Suc idx) items tr1) = tr1 @ evs'"
        using 3(2) [OF False lb [symmetric]] None by auto
      with False lb None evs show ?thesis by simp
    next
      case (Some x)
      with False lb evs show ?thesis by simp
    qed
  qed
qed

lemma csv_processing_extends:
  "\<exists>evs. snd (csv_processing e f tn tok tr) = tr @ evs"
proof (cases "files e f")
  case NoFile
  then show ?thesis by (simp add: csv_processing_def)
next
  case Unreadable
  then show ?thesis by (simp add: csv_processing_def)
next
  case (Lines ls)
  let ?tr = "tr @ [OpenFile f, Log INFO ''Opened CSV file: %s'' [AStr f]]"
  obtain ex tr2 where fr: "for_rows e tn tok 1 (csv_reader e (skip_comments ls)) ?tr = (ex, tr2)"
    by (cases "for_rows e tn tok 1 (csv_reader e (skip_comments ls)) ?tr") auto
  obtain evs where "tr2 = ?tr @ evs"
    using for_rows_extends [of e tn tok 1 "csv_reader e (skip_comments ls)" ?tr] fr by auto
  with Lines fr show ?thesis
    by (cases ex) (simp_all add: csv_processing_def)
qed

lemma get_bearer_token_token:
  "fst (get_bearer_token e t c s tr) = Inr tok \<longleftrightarrow>
     (\<exists>status d. token_answer e t c s tr = Response status (Json (JDict d))
        \<and> \<not> raise_for_status status \<and> map_of d ''access_token'' = Some tok \<and> truthy tok)"
  by (auto simp: get_bearer_token_def token_answer_def auth_failed_def Let_def
      split: http_outcome.splits body.splits json.splits option.splits)

lemma get_bearer_token_exit:
  "fst (get_bearer_token e t c s tr) = Inl en \<Longrightarrow> exit_status en = 1"
  by (auto simp: get_bearer_token_def auth_failed_def Let_def
      split: http_outcome.splits body.splits json.splits option.splits if_splits)

lemma get_bearer_token_fatal:
  assumes "token_answer e t c s tr = ConnectionFailed
     \<or> (\<exists>status b. token_answer e t c s tr = Response status b \<and> raise_for_status status)
     \<or> (\<exists>status d. token_answer e t c s tr = Response status (Json (JDict d))
          \<and> map_of d ''access_token'' = None)"
  shows "fst (get_bearer_token e t c s tr) = Inl (SysExit 1)"
  using assms
  by (auto simp: get_bearer_token_def token_answer_def auth_failed_def Let_def
      split: http_outcome.splits body.splits json.splits option.splits)

lemma credential_handling_exit:
  "fst (credential_handling e tr) = Inl en \<Longrightarrow> exit_status en = 1"
  by (auto simp: credential_handling_def Let_def split: text_file.splits list.splits if_splits)

lemma main_credentials_failed:
  assumes "length (argv e) = 2" and "fst (credential_handling e []) = Inl en"
  shows "main e = (en, snd (credential_handling e []))"
  using assms by (cases "credential_handling e []") (simp add: main_def)

lemma main_auth_failed:
  assumes "length (argv e) = 2" and "credential_handling e [] = (Inr (t, c, s), tr)"
    and "fst (get_bearer_token e t c s tr) = Inl en"
  shows "main e = (en, snd (get_bearer_token e t c s tr))"
  using assms by (cases "get_bearer_token e t c s tr") (simp add: main_def)

lemma main_csv:
  assumes "length (argv e) = 2" and "credential_handling e [] = (Inr (t, c, s), tr)"
    and "get_bearer_token e t c s tr = (Inr tok, tr1)"
  shows "main e = csv_processing e (argv e ! 1) t tok tr1"
  using assms by (simp add: main_def)

lemma main_returns:
  assumes "length (argv e) = 2" and "credential_handling e [] = (Inr (t, c, s), tr)"
    and "get_bearer_token e t c s tr = (Inr tok, tr1)"
    and "files e (argv e ! 1) = Lines ls"
    and "list_all complete (csv_reader e (skip_comments ls))"
  shows "fst (main e) = Returned"
proof -
  let ?tr = "tr1 @ [OpenFile (argv e ! 1), Log INFO ''Opened CSV file: %s'' [AStr (argv e ! 1)]]"
  obtain tr2 where "for_rows e t tok 1 (csv_reader e (skip_comments ls)) ?tr = (None, tr2)"
    using for_rows_complete [OF assms(5), of e t tok 1 ?tr]
    by (cases "for_rows e t tok 1 (csv_reader e (skip_comments ls)) ?tr") simp
  with assms(4) show ?thesis
    by (simp add: main_csv [OF assms(1,2,3)] csv_processing_def)
qed

lemma main_csv_unavailable:
  assumes "length (argv e) = 2" and "credential_handling e [] = (Inr (t, c, s), tr)"
    and "get_bearer_token e t c s tr = (Inr tok, tr1)"
    and "files e (argv e ! 1) = NoFile \<or> files e (argv e ! 1) = Unreadable"
  shows "fst (main e) = SysExit 1"
  using assms(4) by (auto simp: main_csv [OF assms(1,2,3)] csv_processing_def)

lemma main_first_request:
  assumes "length (argv e) = 2" and "credential_handling e [] = (Inr (t, c, s), tr)"
  shows "\<exists>rs. requests (snd (main e)) = token_request t c s # rs"
proof -
  have no_req: "requests tr = []"
    using requests_credential_handling [of e "[]"] assms(2) by simp
  obtain res tr1 where gb: "get_bearer_token e t c s tr = (res, tr1)"
    by (cases "get_bearer_token e t c s tr") auto
  have req1: "requests tr1 = [token_request t c s]"
    using requests_get_bearer_token [of e t c s tr] gb no_req by simp
  show ?thesis
  proof (cases res)
    case (Inl en)
    with gb have "main e = (en, tr1)"
      using main_auth_failed [OF assms, of en] by simp
    with req1 show ?thesis by simp
  next
    case (Inr tok)
    with gb have m: "main e = csv_processing e (argv e ! 1) t tok tr1"
      using main_csv [OF assms] by simp
    obtain evs where "snd (csv_processing e (argv e ! 1) t tok tr1) = tr1 @ evs"
      using csv_processing_extends by blast
    with m req1 show ?thesis by (simp add: requests_append)
  qed
qed

subsection \<open>The comment filter\<close>

lemma skip_comments_dropWhile: "skip_comments ls = dropWhile is_comment ls"
  by (induction ls) auto

text \<open>
  Claim C5. The comment filter splits any sequence of lines into the leading run of
  comment lines (lines whose left-stripped text starts with \<open>#\<close>), which it discards,
  and the rest, which it yields unchanged and in order: the input is the discarded run
  followed by the output, every discarded line is a comment, the output is empty or
  starts with a line that is not a comment, and whatever follows a first line that is
  not a comment is yielded whole, comment lines included.
\<close>

theorem skip_comments_leading_run:
  "ls = takeWhile is_comment ls @ skip_comments ls
   \<and> list_all is_comment (takeWhile is_comment ls)
   \<and> (skip_comments ls = [] \<or> \<not> is_comment (hd (skip_comments ls)))
   \<and> (\<not> is_comment l \<longrightarrow> skip_comments (cs @ l # rest) =
         (if list_all is_comment cs then l # rest else skip_comments cs @ l # rest))"
proof -
  have a: "ls = takeWhile is_comment ls @ skip_comments ls"
    by (simp add: skip_comments_dropWhile)
  have b: "list_all is_comment (takeWhile is_comment ls)"
    by (simp add: list_all_iff) (metis set_takeWhileD)
  have c: "skip_comments ls = [] \<or> \<not> is_comment (hd (skip_comments ls))"
    by (induction ls) auto
  have d: "\<not> is_comment l \<longrightarrow> skip_comments (cs @ l # rest) =
         (if list_all is_comment cs then l # rest else skip_comments cs @ l # rest)"
    by (induction cs) auto
  from a b c d show ?thesis by blast
qed

theorem skip_comments_leading_run_witness:
  "[''#header'', ''  # second'', ''V1,AP100,1,10'', ''#V2,AP200,2,20''] =
     [''#header'', ''  # second''] @ [''V1,AP100,1,10'', ''#V2,AP200,2,20'']
   \<and> skip_comments [''#header'', ''  # second'', ''V1,AP100,1,10'', ''#V2,AP200,2,20''] =
     [''V1,AP100,1,10'', ''#V2,AP200,2,20'']
   \<and> \<not> is_comment ''V1,AP100,1,10''
   \<and> is_comment ''#V2,AP200,2,20''"
  using skip_comments_leading_run
    [of "[''#header'', ''  # second'', ''V1,AP100,1,10'', ''#V2,AP200,2,20'']"
        "''V1,AP100,1,10''" "[''#header'', ''  # second'']" "[''#V2,AP200,2,20'']"]
  by (simp add: is_comment_def startswith_def lstrip_def py_isspace_def)

subsection \<open>Validation of a row\<close>

text \<open>
  Claim C1. Not every row ends as a request or a skip: for the record \<open>V1,AP100,1\<close>,
  which has no fourth field, \<open>int\<close> is applied to \<open>None\<close> and the \<open>TypeError\<close> leaves the
  loop body, since the handler names \<open>KeyError\<close> and \<open>ValueError\<close> only; for the record
  \<open>V1\<close> it is the \<open>AttributeError\<close> of \<open>None.strip()\<close>. Nothing but the line
  \<open>Processing row\<close> is logged for such a row. (For records of four fields or more the
  order of validation is that of \<open>loop_body_complete\<close>.)
\<close>

theorem short_row_raises:
  "loop_body e tn tok idx (dict_row FIELDNAMES [''V1'', ''AP100'', ''1'']) tr =
     (Some TypeError, tr @ [processing idx (dict_row FIELDNAMES [''V1'', ''AP100'', ''1''])])
   \<and> loop_body e tn tok idx (dict_row FIELDNAMES [''V1'']) tr =
     (Some AttributeError, tr @ [processing idx (dict_row FIELDNAMES [''V1''])])"
proof -
  have "py_int ''1'' = Some 1" by code_simp
  then show ?thesis
    by (simp add: loop_body_three_fields loop_body_one_field)
qed

text \<open>
  Claim C2. A row whose \<open>vlan_id\<close> is a text that \<open>int\<close> reads as an integer below 1 or
  above 4094 is skipped: the loop body raises nothing, what it adds to the trace is the
  line \<open>Processing row\<close> followed by one of the three skip reports (a port that does
  not parse, a missing identifier, or the invalid VLAN), and no HTTP request is sent.
\<close>

theorem invalid_vlan_row_skipped:
  assumes "getitem (dict_row FIELDNAMES r) ''vlan_id'' = Inr (CStr s)"
    and "py_int s = Some v"
    and "v < 1 \<or> 4094 < v"
  shows "fst (loop_body e tn tok idx (dict_row FIELDNAMES r) tr) = None
    \<and> snd (loop_body e tn tok idx (dict_row FIELDNAMES r) tr) \<in>
        {tr @ processing idx (dict_row FIELDNAMES r) # skip_error idx (dict_row FIELDNAMES r) ValueError,
         tr @ processing idx (dict_row FIELDNAMES r) # skip_missing idx (dict_row FIELDNAMES r),
         tr @ processing idx (dict_row FIELDNAMES r) # skip_vlan idx (dict_row FIELDNAMES r) v}
    \<and> requests (snd (loop_body e tn tok idx (dict_row FIELDNAMES r) tr)) = requests tr"
proof -
  from assms(1) obtain venue ap port_s extra where r: "r = venue # ap # port_s # s # extra"
    using vlan_present by blast
  have row: "dict_row FIELDNAMES r = dict_row FIELDNAMES (venue # ap # port_s # s # extra)"
    by (simp add: r)
  show ?thesis
    using assms(2,3)
    by (simp add: loop_body_complete [OF row] requests_append processing_def skip_error_def
        skip_missing_def skip_vlan_def split: option.splits)
qed

theorem invalid_vlan_row_skipped_witness:
  "getitem (dict_row FIELDNAMES [''V2'', ''AP200'', ''2'', ''5000'']) ''vlan_id'' = Inr (CStr ''5000'')
   \<and> py_int ''5000'' = Some 5000
   \<and> fst (loop_body (run_env NoFile [] (always ConnectionFailed)) ''tenant'' (JStr ''tok'') 2
            (dict_row FIELDNAMES [''V2'', ''AP200'', ''2'', ''5000'']) []) = None
   \<and> requests (snd (loop_body (run_env NoFile [] (always ConnectionFailed)) ''tenant'' (JStr ''tok'') 2
            (dict_row FIELDNAMES [''V2'', ''AP200'', ''2'', ''5000'']) [])) = []"
proof -
  have field: "getitem (dict_row FIELDNAMES [''V2'', ''AP200'', ''2'', ''5000'']) ''vlan_id'' = Inr (CStr ''5000'')"
    by code_simp
  have parsed: "py_int ''5000'' = Some 5000"
    by code_simp
  have range: "(5000::int) < 1 \<or> 4094 < (5000::int)"
    by simp
  show ?thesis
    using field parsed
      invalid_vlan_row_skipped [OF field parsed range,
        of "run_env NoFile [] (always ConnectionFailed)" "''tenant''" "JStr ''tok''" 2 "[]"]
    by simp
qed

text \<open>
  Claim C3. One short row ends the batch: with the CSV \<open>#header\<close>, \<open>V1,AP100,1\<close>,
  \<open>V2,AP200,2,20\<close> the run ends with \<open>sys.exit(1)\<close> in the handler of the outer \<open>try\<close>;
  only row 1 was begun, and the valid row 2 gets no request (the one request of the run
  is the token request).
\<close>

theorem short_row_aborts_batch:
  "fst (main (run_env (Lines [''tenant'', ''client'', ''secret''])
                [''#header'', ''V1,AP100,1'', ''V2,AP200,2,20'']
                (token_then (Response 200 NotJson)))) = SysExit 1
   \<and> processed (snd (main (run_env (Lines [''tenant'', ''client'', ''secret''])
                [''#header'', ''V1,AP100,1'', ''V2,AP200,2,20'']
                (token_then (Response 200 NotJson))))) =
       [processing 1 (dict_row FIELDNAMES [''V1'', ''AP100'', ''1''])]
   \<and> requests (snd (main (run_env (Lines [''tenant'', ''client'', ''secret''])
                [''#header'', ''V1,AP100,1'', ''V2,AP200,2,20'']
                (token_then (Response 200 NotJson))))) =
       [token_request ''tenant'' ''client'' ''secret'']"
  by code_simp

subsection \<open>Authentication\<close>

text \<open>
  Claim C4, as stated, fails: a response with status 300, which is no 2xx status, whose
  body is an object with \<open>access_token\<close>, gives the token and no exit.
\<close>

theorem token_from_status_300:
  "fst (get_bearer_token
          (run_env NoFile [] (always (Response 300 (Json (JDict [(''access_token'', JStr ''tok'')])))))
          ''tenant'' ''client'' ''secret'' []) = Inr (JStr ''tok'')
   \<and> \<not> (200 \<le> (300::int) \<and> (300::int) < 300)"
  by code_simp

text \<open>
  Claim C4, amended. \<open>get_bearer_token\<close> returns a token exactly when the answer is a
  response whose status \<open>raise_for_status\<close> accepts (any status outside 400 to 599) and
  whose body is a JSON object with a true \<open>access_token\<close>, which is the token returned.
  A failure of the call, a status from 400 to 599 and an object without \<open>access_token\<close>
  end in \<open>sys.exit\<close>; every ending of \<open>get_bearer_token\<close> without token has exit status
  1. When authentication fails in a run, the run ends there: no row was begun, the
  token request is the only request, and no file but \<open>credentials\<close> was opened.
\<close>

theorem authentication_outcomes:
  "(fst (get_bearer_token e t c s tr) = Inr tok \<longleftrightarrow>
      (\<exists>status d. token_answer e t c s tr = Response status (Json (JDict d))
         \<and> \<not> raise_for_status status \<and> map_of d ''access_token'' = Some tok \<and> truthy tok))
   \<and> (token_answer e t c s tr = ConnectionFailed
        \<or> (\<exists>status b. token_answer e t c s tr = Response status b \<and> raise_for_status status)
        \<or> (\<exists>status d. token_answer e t c s tr = Response status (Json (JDict d))
             \<and> map_of d ''access_token'' = None)
       \<longrightarrow> fst (get_bearer_token e t c s tr) = Inl (SysExit 1))
   \<and> (fst (get_bearer_token e t c s tr) = Inl en \<longrightarrow> exit_status en = 1)
   \<and> (length (argv e) = 2 \<and> credential_handling e [] = (Inr (t, c, s), tr)
        \<and> fst (get_bearer_token e t c s tr) = Inl en
       \<longrightarrow> fst (main e) = en \<and> processed (snd (main e)) = []
           \<and> requests (snd (main e)) = [token_request t c s]
           \<and> set (opened (snd (main e))) \<subseteq> {''credentials''})"
proof -
  have d: "fst (main e) = en \<and> processed (snd (main e)) = []
           \<and> requests (snd (main e)) = [token_request t c s]
           \<and> set (opened (snd (main e))) \<subseteq> {''credentials''}"
    if a: "length (argv e) = 2" and b: "credential_handling e [] = (Inr (t, c, s), tr)"
      and f: "fst (get_bearer_token e t c s tr) = Inl en"
  proof -
    have m: "main e = (en, snd (get_bearer_token e t c s tr))"
      by (rule main_auth_failed [OF a b f])
    have "processed tr = []"
      using processed_credential_handling [of e "[]"] b by (simp add: processed_def)
    moreover have "requests tr = []"
      using requests_credential_handling [of e "[]"] b by simp
    moreover have "set (opened tr) \<subseteq> {''credentials''}"
      using opened_credential_handling [of e "[]"] b by simp
    ultimately show ?thesis
      by (simp add: m processed_get_bearer_token requests_get_bearer_token opened_get_bearer_token)
  qed
  show ?thesis
    using get_bearer_token_token [of e t c s tr tok] get_bearer_token_fatal [of e t c s tr]
      get_bearer_token_exit [of e t c s tr en] d
    by blast
qed

theorem authentication_outcomes_witness:
  "fst (get_bearer_token
          (run_env (Lines [''tenant'', ''client'', ''secret'']) [''V1,AP100,1,10'']
             (token_then ConnectionFailed))
          ''tenant'' ''client'' ''secret'' []) = Inr (JStr ''tok'')
   \<and> fst (main (run_env (Lines [''tenant'', ''client'', ''secret'']) [''V1,AP100,1,10'']
                  (always (Response 401 NotJson)))) = SysExit 1
   \<and> processed (snd (main (run_env (Lines [''tenant'', ''client'', ''secret'']) [''V1,AP100,1,10'']
                  (always (Response 401 NotJson))))) = []
   \<and> requests (snd (main (run_env (Lines [''tenant'', ''client'', ''secret'']) [''V1,AP100,1,10'']
                  (always (Response 401 NotJson))))) = [token_request ''tenant'' ''client'' ''secret'']"
proof -
  let ?good = "run_env (Lines [''tenant'', ''client'', ''secret'']) [''V1,AP100,1,10'']
                 (token_then ConnectionFailed)"
  let ?bad = "run_env (Lines [''tenant'', ''client'', ''secret'']) [''V1,AP100,1,10'']
                 (always (Response 401 NotJson))"
  let ?tr = "[Log INFO ''Loading credentials from file: %s'' [AStr ''credentials''],
              OpenFile ''credentials'']"
  have answer: "token_answer ?good ''tenant'' ''client'' ''secret'' [] =
      Response 200 (Json (JDict [(''access_token'', JStr ''tok'')]))"
    by code_simp
  have accepted: "\<not> raise_for_status 200" by code_simp
  have member: "map_of [(''access_token'', JStr ''tok'')] ''access_token'' = Some (JStr ''tok'')"
    by simp
  have true: "truthy (JStr ''tok'')" by simp
  have good: "fst (get_bearer_token ?good ''tenant'' ''client'' ''secret'' []) = Inr (JStr ''tok'')"
    using authentication_outcomes [where e = ?good and t = "''tenant''" and c = "''client''"
        and s = "''secret''" and tr = "[]" and tok = "JStr ''tok''"]
      answer accepted member true
    by blast
  have arity: "length (argv ?bad) = 2" by code_simp
  have creds: "credential_handling ?bad [] = (Inr (''tenant'', ''client'', ''secret''), ?tr)"
    by code_simp
  have refused: "token_answer ?bad ''tenant'' ''client'' ''secret'' ?tr = Response 401 NotJson"
    by code_simp
  have status: "raise_for_status 401" by code_simp
  note bad = authentication_outcomes [where e = ?bad and t = "''tenant''" and c = "''client''"
        and s = "''secret''" and tr = ?tr and en = "SysExit 1"]
  have fatal: "fst (get_bearer_token ?bad ''tenant'' ''client'' ''secret'' ?tr) = Inl (SysExit 1)"
    using bad refused status by blast
  have "fst (main ?bad) = SysExit 1 \<and> processed (snd (main ?bad)) = []
      \<and> requests (snd (main ?bad)) = [token_request ''tenant'' ''client'' ''secret'']"
    using bad arity creds fatal by blast
  with good show ?thesis by blast
qed

subsection \<open>The configuration request\<close>

text \<open>
  Claim C6. A valid row (four fields or more, identifiers non-empty after stripping,
  port an integer, VLAN an integer from 1 to 4094) is handed to \<open>configure_ap_port\<close>
  with the stripped identifiers and the parsed integers, and that call sends exactly one
  request: a PUT to \<open>/venues/{venue_id}/aps/{ap_serial}/lanPorts/{port}/settings\<close> of the
  API host, with the bearer token, and with the JSON body \<open>useVenueSettings\<close> false,
  \<open>enabled\<close> true, \<open>overwriteUntagId\<close> the VLAN as an integer, \<open>overwriteVlanMembers\<close> the
  decimal text of the VLAN. It is the one request of the row, and no exception leaves
  the loop body.
\<close>

theorem valid_row_one_put:
  assumes "r = venue # ap # port_s # vlan_s # extra"
    and "strip venue \<noteq> []" and "strip ap \<noteq> []"
    and "py_int port_s = Some port" and "py_int vlan_s = Some vlan_id"
    and "1 \<le> vlan_id" and "vlan_id \<le> 4094"
  shows "try_row e tn tok idx (dict_row FIELDNAMES r) tr =
      configure_ap_port e tn (strip venue) (strip ap) port vlan_id tok
        (tr @ [processing idx (dict_row FIELDNAMES r)])
    \<and> loop_body e tn tok idx (dict_row FIELDNAMES r) tr =
      (None,
       snd (configure_ap_port e tn (strip venue) (strip ap) port vlan_id tok
              (tr @ [processing idx (dict_row FIELDNAMES r)]))
       @ (case fst (configure_ap_port e tn (strip venue) (strip ap) port vlan_id tok
                      (tr @ [processing idx (dict_row FIELDNAMES r)])) of
            None \<Rightarrow> []
          | Some ex \<Rightarrow> skip_error idx (dict_row FIELDNAMES r) ex))
    \<and> requests (snd (configure_ap_port e tn (strip venue) (strip ap) port vlan_id tok
               (tr @ [processing idx (dict_row FIELDNAMES r)]))) =
      requests tr @
      [Put \<lparr>put_url = ''https://api.ruckus.cloud/venues/'' @ strip venue @ ''/aps/'' @ strip ap
                        @ ''/lanPorts/'' @ py_str port @ ''/settings'',
             put_bearer = tok,
             put_content_type = ''application/json'',
             put_json = [(''useVenueSettings'', JBool False),
                         (''enabled'', JBool True),
                         (''overwriteUntagId'', JInt vlan_id),
                         (''overwriteVlanMembers'', JStr (py_str vlan_id))]\<rparr>]
    \<and> requests (snd (loop_body e tn tok idx (dict_row FIELDNAMES r) tr)) =
      requests tr @
      [Put \<lparr>put_url = ''https://api.ruckus.cloud/venues/'' @ strip venue @ ''/aps/'' @ strip ap
                        @ ''/lanPorts/'' @ py_str port @ ''/settings'',
             put_bearer = tok,
             put_content_type = ''application/json'',
             put_json = [(''useVenueSettings'', JBool False),
                         (''enabled'', JBool True),
                         (''overwriteUntagId'', JInt vlan_id),
                         (''overwriteVlanMembers'', JStr (py_str vlan_id))]\<rparr>]"
proof -
  let ?row = "dict_row FIELDNAMES r"
  let ?call = "configure_ap_port e tn (strip venue) (strip ap) port vlan_id tok
                 (tr @ [processing idx ?row])"
  have row: "?row = dict_row FIELDNAMES (venue # ap # port_s # vlan_s # extra)"
    by (simp add: assms(1))
  have a: "try_row e tn tok idx ?row tr = ?call"
    by (rule try_row_valid [OF row assms(2-7)])
  have b: "loop_body e tn tok idx ?row tr =
      (None, snd ?call @ (case fst ?call of None \<Rightarrow> [] | Some ex \<Rightarrow> skip_error idx ?row ex))"
    using assms(2-7) by (simp add: loop_body_complete [OF row])
  have c: "requests (snd ?call) =
      requests tr @ [Put (port_request (strip venue) (strip ap) port vlan_id tok)]"
    by (simp add: requests_configure_ap_port requests_append processing_def)
  have d: "requests (case fst ?call of None \<Rightarrow> [] | Some ex \<Rightarrow> skip_error idx ?row ex) = []"
    by (simp add: skip_error_def split: option.splits)
  have e: "requests (snd (loop_body e tn tok idx ?row tr)) =
      requests tr @ [Put (port_request (strip venue) (strip ap) port vlan_id tok)]"
    by (simp add: b requests_append c d)
  show ?thesis
    using a b c e by (simp add: port_request_def)
qed

theorem valid_row_one_put_witness:
  "try_row (run_env NoFile [] (always (Response 200 NotJson))) ''tenant'' (JStr ''tok'') 1
       (dict_row FIELDNAMES [''V1'', '' AP100 '', ''1'', ''10'']) [] =
     configure_ap_port (run_env NoFile [] (always (Response 200 NotJson))) ''tenant''
       ''V1'' ''AP100'' 1 10 (JStr ''tok'')
       [processing 1 (dict_row FIELDNAMES [''V1'', '' AP100 '', ''1'', ''10''])]
   \<and> requests (snd (configure_ap_port (run_env NoFile [] (always (Response 200 NotJson))) ''tenant''
              ''V1'' ''AP100'' 1 10 (JStr ''tok'')
              [processing 1 (dict_row FIELDNAMES [''V1'', '' AP100 '', ''1'', ''10''])])) =
     [Put \<lparr>put_url = ''https://api.ruckus.cloud/venues/V1/aps/AP100/lanPorts/1/settings'',
            put_bearer = JStr ''tok'',
            put_content_type = ''application/json'',
            put_json = [(''useVenueSettings'', JBool False),
                        (''enabled'', JBool True),
                        (''overwriteUntagId'', JInt 10),
                        (''overwriteVlanMembers'', JStr ''10'')]\<rparr>]
   \<and> requests (snd (loop_body (run_env NoFile [] (always (Response 200 NotJson))) ''tenant''
              (JStr ''tok'') 1 (dict_row FIELDNAMES [''V1'', '' AP100 '', ''1'', ''10'']) [])) =
     [Put \<lparr>put_url = ''https://api.ruckus.cloud/venues/V1/aps/AP100/lanPorts/1/settings'',
            put_bearer = JStr ''tok'',
            put_content_type = ''application/json'',
            put_json = [(''useVenueSettings'', JBool False),
                        (''enabled'', JBool True),
                        (''overwriteUntagId'', JInt 10),
                        (''overwriteVlanMembers'', JStr ''10'')]\<rparr>]"
proof -
  have venue: "strip ''V1'' = ''V1''" and ap: "strip '' AP100 '' = ''AP100''"
    by code_simp+
  have venue_ok: "strip ''V1'' \<noteq> []" and ap_ok: "strip '' AP100 '' \<noteq> []"
    by (simp_all add: venue ap)
  have port: "py_int ''1'' = Some 1" and vlan: "py_int ''10'' = Some 10"
    by (simp_all add: py_int_eval)
  have lo: "(1::int) \<le> 10" and hi: "(10::int) \<le> 4094" by simp_all
  have s1: "py_str 1 = ''1''" and s2: "py_str 10 = ''10''"
    by (simp_all add: py_str_eval)
  note valid = valid_row_one_put [OF refl venue_ok ap_ok port vlan lo hi,
        where extra = "[]" and e = "run_env NoFile [] (always (Response 200 NotJson))"
          and tn = "''tenant''" and tok = "JStr ''tok''" and idx = 1 and tr = "[]"]
  have handed: "try_row (run_env NoFile [] (always (Response 200 NotJson))) ''tenant'' (JStr ''tok'') 1
       (dict_row FIELDNAMES [''V1'', '' AP100 '', ''1'', ''10'']) [] =
     configure_ap_port (run_env NoFile [] (always (Response 200 NotJson))) ''tenant''
       ''V1'' ''AP100'' 1 10 (JStr ''tok'')
       [processing 1 (dict_row FIELDNAMES [''V1'', '' AP100 '', ''1'', ''10''])]"
    using valid [THEN conjunct1] by (simp add: venue ap)
  have sent: "requests (snd (configure_ap_port (run_env NoFile [] (always (Response 200 NotJson)))
              ''tenant'' ''V1'' ''AP100'' 1 10 (JStr ''tok'')
              [processing 1 (dict_row FIELDNAMES [''V1'', '' AP100 '', ''1'', ''10''])])) =
     [Put \<lparr>put_url = ''https://api.ruckus.cloud/venues/V1/aps/AP100/lanPorts/1/settings'',
            put_bearer = JStr ''tok'',
            put_content_type = ''application/json'',
            put_json = [(''useVenueSettings'', JBool False),
                        (''enabled'', JBool True),
                        (''overwriteUntagId'', JInt 10),
                        (''overwriteVlanMembers'', JStr ''10'')]\<rparr>]"
    using valid [THEN conjunct2, THEN conjunct2, THEN conjunct1] by (simp add: venue ap s1 s2)
  have row: "requests (snd (loop_body (run_env NoFile [] (always (Response 200 NotJson))) ''tenant''
              (JStr ''tok'') 1 (dict_row FIELDNAMES [''V1'', '' AP100 '', ''1'', ''10'']) [])) =
     [Put \<lparr>put_url = ''https://api.ruckus.cloud/venues/V1/aps/AP100/lanPorts/1/settings'',
            put_bearer = JStr ''tok'',
            put_content_type = ''application/json'',
            put_json = [(''useVenueSettings'', JBool False),
                        (''enabled'', JBool True),
                        (''overwriteUntagId'', JInt 10),
                        (''overwriteVlanMembers'', JStr ''10'')]\<rparr>]"
    using valid [THEN conjunct2, THEN conjunct2, THEN conjunct2] by (simp add: venue ap s1 s2)
  from handed sent row show ?thesis by (intro conjI)
qed

text \<open>
  Claim C7, as stated, fails: a response with status 300, which is no 2xx status, is
  logged and printed as configured, not as failed.
\<close>

theorem status_300_reported_configured:
  "configure_ap_port (run_env NoFile [] (always (Response 300 NotJson))) ''tenant''
       ''V1'' ''AP100'' 1 10 (JStr ''tok'') [] =
     (None,
      [Log INFO ''PUT %s | Payload: %s''
         [AStr (put_url (port_request ''V1'' ''AP100'' 1 10 (JStr ''tok''))),
          APayload (put_json (port_request ''V1'' ''AP100'' 1 10 (JStr ''tok'')))],
       Http (Put (port_request ''V1'' ''AP100'' 1 10 (JStr ''tok''))),
       Log INFO ''Response [%s]: %s'' [AInt 300, ABody NotJson],
       Log INFO ''Successfully configured AP %s port %s at venue %s''
         [AStr ''AP100'', AInt 1, AStr ''V1''],
       Print ''Configured AP {ap_serial} port {port} at venue {venue_id}''
         [AStr ''AP100'', AInt 1, AStr ''V1'']])
   \<and> \<not> (200 \<le> (300::int) \<and> (300::int) < 300)"
  by code_simp

text \<open>
  Claim C7, amended. For a valid row, whatever the server answers to its request:
  \<^item> when the request fails with a \<open>RequestException\<close> (the call raises one, or the
    status is from 400 to 599, which \<open>raise_for_status\<close> rejects), nothing leaves
    \<open>configure_ap_port\<close>; the trace gets the request, the response line if there was a
    response, then the line \<open>Failed to configure port\<close> at level ERROR on the log and
    the line \<open>Failed to configure port\<close> on the console;
  \<^item> when the response has any other status, the row is logged and printed as
    configured;
  \<^item> when the library raises a \<open>ValueError\<close>, it leaves \<open>configure_ap_port\<close>, and the
    handler of the loop logs and prints the row as skipped;
  \<^item> in each case the loop goes on with the next row, and a run whose records are all
    blank or of four fields or more ends with exit status 0.
\<close>

theorem failed_request_is_reported:
  assumes "r = venue # ap # port_s # vlan_s # extra"
    and "strip venue \<noteq> []" and "strip ap \<noteq> []"
    and "py_int port_s = Some p" and "py_int vlan_s = Some v"
    and "1 \<le> v" and "v \<le> 4094"
  shows "(failed (put_answer e (strip venue) (strip ap) p v tok
                   (tr @ [processing idx (dict_row FIELDNAMES r)])) \<longrightarrow>
       fst (configure_ap_port e tn (strip venue) (strip ap) p v tok
              (tr @ [processing idx (dict_row FIELDNAMES r)])) = None
       \<and> loop_body e tn tok idx (dict_row FIELDNAMES r) tr =
          (None,
           tr @ [processing idx (dict_row FIELDNAMES r),
                 Log INFO ''PUT %s | Payload: %s''
                   [AStr (put_url (port_request (strip venue) (strip ap) p v tok)),
                    APayload (put_json (port_request (strip venue) (strip ap) p v tok))],
                 Http (Put (port_request (strip venue) (strip ap) p v tok))]
              @ (case put_answer e (strip venue) (strip ap) p v tok
                        (tr @ [processing idx (dict_row FIELDNAMES r)]) of
                   Response status b \<Rightarrow> [Log INFO ''Response [%s]: %s'' [AInt status, ABody b]]
                 | _ \<Rightarrow> [])
              @ [Log ERROR ''Failed to configure port %s on %s at venue %s: %s''
                   [AInt p, AStr (strip ap), AStr (strip venue), AExc RequestException],
                 Print ''Failed to configure port {port} on {ap_serial} at venue {venue_id}: {e}''
                   [AInt p, AStr (strip ap), AStr (strip venue), AExc RequestException]]))
    \<and> (put_answer e (strip venue) (strip ap) p v tok
           (tr @ [processing idx (dict_row FIELDNAMES r)]) = Response status b
        \<and> \<not> raise_for_status status \<longrightarrow>
       loop_body e tn tok idx (dict_row FIELDNAMES r) tr =
          (None,
           tr @ [processing idx (dict_row FIELDNAMES r),
                 Log INFO ''PUT %s | Payload: %s''
                   [AStr (put_url (port_request (strip venue) (strip ap) p v tok)),
                    APayload (put_json (port_request (strip venue) (strip ap) p v tok))],
                 Http (Put (port_request (strip venue) (strip ap) p v tok)),
                 Log INFO ''Response [%s]: %s'' [AInt status, ABody b],
                 Log INFO ''Successfully configured AP %s port %s at venue %s''
                   [AStr (strip ap), AInt p, AStr (strip venue)],
                 Print ''Configured AP {ap_serial} port {port} at venue {venue_id}''
                   [AStr (strip ap), AInt p, AStr (strip venue)]]))
    \<and> (put_answer e (strip venue) (strip ap) p v tok
           (tr @ [processing idx (dict_row FIELDNAMES r)]) = ValueErrorRaised \<longrightarrow>
       fst (configure_ap_port e tn (strip venue) (strip ap) p v tok
              (tr @ [processing idx (dict_row FIELDNAMES r)])) = Some ValueError
       \<and> loop_body e tn tok idx (dict_row FIELDNAMES r) tr =
          (None,
           tr @ [processing idx (dict_row FIELDNAMES r),
                 Log INFO ''PUT %s | Payload: %s''
                   [AStr (put_url (port_request (strip venue) (strip ap) p v tok)),
                    APayload (put_json (port_request (strip venue) (strip ap) p v tok))],
                 Http (Put (port_request (strip venue) (strip ap) p v tok)),
                 Log ERROR ''Error processing row %d: %s | Row: %s''
                   [AInt (int idx), AExc ValueError, ARow (dict_row FIELDNAMES r)],
                 Print ''Skipping row {idx}: {e}'' [AInt (int idx), AExc ValueError]]))
    \<and> for_rows e tn tok idx (Record r # items) tr =
        for_rows e tn tok (Suc idx) items (snd (loop_body e tn tok idx (dict_row FIELDNAMES r) tr))
    \<and> (list_all complete items \<longrightarrow> fst (for_rows e tn tok idx (Record r # items) tr) = None)
    \<and> (list_all complete (before @ Record r # items) \<and> length (argv e) = 2
         \<and> credential_handling e [] = (Inr (tn, c, s), tr0)
         \<and> get_bearer_token e tn c s tr0 = (Inr tok, tr1)
         \<and> files e (argv e ! 1) = Lines ls
         \<and> csv_reader e (skip_comments ls) = before @ Record r # items
        \<longrightarrow> exit_status (fst (main e)) = 0)"
proof -
  let ?row = "dict_row FIELDNAMES r"
  let ?tr = "tr @ [processing idx ?row]"
  let ?call = "configure_ap_port e tn (strip venue) (strip ap) p v tok ?tr"
  let ?answer = "put_answer e (strip venue) (strip ap) p v tok ?tr"
  have row: "?row = dict_row FIELDNAMES (venue # ap # port_s # vlan_s # extra)"
    by (simp add: assms(1))
  have body: "loop_body e tn tok idx ?row tr =
      (None, snd ?call @ (case fst ?call of None \<Rightarrow> [] | Some ex \<Rightarrow> skip_error idx ?row ex))"
    using assms(2-7) by (simp add: loop_body_complete [OF row])
  have a1: "fst ?call = None" if "failed ?answer"
    by (simp add: configure_ap_port_failed [OF that])
  have a2: "loop_body e tn tok idx ?row tr =
          (None,
           tr @ [processing idx ?row,
                 Log INFO ''PUT %s | Payload: %s''
                   [AStr (put_url (port_request (strip venue) (strip ap) p v tok)),
                    APayload (put_json (port_request (strip venue) (strip ap) p v tok))],
                 Http (Put (port_request (strip venue) (strip ap) p v tok))]
              @ (case ?answer of
                   Response status b \<Rightarrow> [Log INFO ''Response [%s]: %s'' [AInt status, ABody b]]
                 | _ \<Rightarrow> [])
              @ [Log ERROR ''Failed to configure port %s on %s at venue %s: %s''
                   [AInt p, AStr (strip ap), AStr (strip venue), AExc RequestException],
                 Print ''Failed to configure port {port} on {ap_serial} at venue {venue_id}: {e}''
                   [AInt p, AStr (strip ap), AStr (strip venue), AExc RequestException]])"
    if "failed ?answer"
    by (simp add: body configure_ap_port_failed [OF that])
  have b: "loop_body e tn tok idx ?row tr =
          (None,
           tr @ [processing idx ?row,
                 Log INFO ''PUT %s | Payload: %s''
                   [AStr (put_url (port_request (strip venue) (strip ap) p v tok)),
                    APayload (put_json (port_request (strip venue) (strip ap) p v tok))],
                 Http (Put (port_request (strip venue) (strip ap) p v tok)),
                 Log INFO ''Response [%s]: %s'' [AInt status, ABody b],
                 Log INFO ''Successfully configured AP %s port %s at venue %s''
                   [AStr (strip ap), AInt p, AStr (strip venue)],
                 Print ''Configured AP {ap_serial} port {port} at venue {venue_id}''
                   [AStr (strip ap), AInt p, AStr (strip venue)]])"
    if "?answer = Response status b" "\<not> raise_for_status status"
    by (simp add: body configure_ap_port_accepted [OF that])
  have c1: "fst ?call = Some ValueError" if "?answer = ValueErrorRaised"
    by (simp add: configure_ap_port_value_error [OF that])
  have c2: "loop_body e tn tok idx ?row tr =
          (None,
           tr @ [processing idx ?row,
                 Log INFO ''PUT %s | Payload: %s''
                   [AStr (put_url (port_request (strip venue) (strip ap) p v tok)),
                    APayload (put_json (port_request (strip venue) (strip ap) p v tok))],
                 Http (Put (port_request (strip venue) (strip ap) p v tok)),
                 Log ERROR ''Error processing row %d: %s | Row: %s''
                   [AInt (int idx), AExc ValueError, ARow ?row],
                 Print ''Skipping row {idx}: {e}'' [AInt (int idx), AExc ValueError]])"
    if "?answer = ValueErrorRaised"
    by (simp add: body configure_ap_port_value_error [OF that] skip_error_def)
  have d: "for_rows e tn tok idx (Record r # items) tr =
        for_rows e tn tok (Suc idx) items (snd (loop_body e tn tok idx ?row tr))"
  proof (rule for_rows_continue)
    show "r \<noteq> []" by (simp add: assms(1))
    show "fst (loop_body e tn tok idx ?row tr) = None" by (simp add: body)
  qed
  have f: "fst (for_rows e tn tok idx (Record r # items) tr) = None" if "list_all complete items"
    by (rule for_rows_complete) (simp add: that assms(1))
  have g: "exit_status (fst (main e)) = 0"
    if "list_all complete (before @ Record r # items)" "length (argv e) = 2"
      "credential_handling e [] = (Inr (tn, c, s), tr0)"
      "get_bearer_token e tn c s tr0 = (Inr tok, tr1)"
      "files e (argv e ! 1) = Lines ls"
      "csv_reader e (skip_comments ls) = before @ Record r # items"
    using main_returns [OF that(2,3,4,5)] that(1,6) by simp
  from a1 a2 b c1 c2 d f g show ?thesis by blast
qed

theorem failed_request_is_reported_witness:
  "loop_body (run_env (Lines [''tenant'', ''client'', ''secret''])
                [''V1,AP100,1,10'', ''V2,AP200,2,20''] (token_then (Response 500 NotJson)))
       ''tenant'' (JStr ''tok'') 1 (dict_row FIELDNAMES [''V1'', ''AP100'', ''1'', ''10'']) [] =
     (None,
      [processing 1 (dict_row FIELDNAMES [''V1'', ''AP100'', ''1'', ''10'']),
       Log INFO ''PUT %s | Payload: %s''
         [AStr (put_url (port_request ''V1'' ''AP100'' 1 10 (JStr ''tok''))),
          APayload (put_json (port_request ''V1'' ''AP100'' 1 10 (JStr ''tok'')))],
       Http (Put (port_request ''V1'' ''AP100'' 1 10 (JStr ''tok''))),
       Log INFO ''Response [%s]: %s'' [AInt 500, ABody NotJson],
       Log ERROR ''Failed to configure port %s on %s at venue %s: %s''
         [AInt 1, AStr ''AP100'', AStr ''V1'', AExc RequestException],
       Print ''Failed to configure port {port} on {ap_serial} at venue {venue_id}: {e}''
         [AInt 1, AStr ''AP100'', AStr ''V1'', AExc RequestException]])
   \<and> loop_body (run_env NoFile [] (always (Response 304 NotJson)))
       ''tenant'' (JStr ''tok'') 1 (dict_row FIELDNAMES [''V1'', ''AP100'', ''1'', ''10'']) [] =
     (None,
      [processing 1 (dict_row FIELDNAMES [''V1'', ''AP100'', ''1'', ''10'']),
       Log INFO ''PUT %s | Payload: %s''
         [AStr (put_url (port_request ''V1'' ''AP100'' 1 10 (JStr ''tok''))),
          APayload (put_json (port_request ''V1'' ''AP100'' 1 10 (JStr ''tok'')))],
       Http (Put (port_request ''V1'' ''AP100'' 1 10 (JStr ''tok''))),
       Log INFO ''Response [%s]: %s'' [AInt 304, ABody NotJson],
       Log INFO ''Successfully configured AP %s port %s at venue %s''
         [AStr ''AP100'', AInt 1, AStr ''V1''],
       Print ''Configured AP {ap_serial} port {port} at venue {venue_id}''
         [AStr ''AP100'', AInt 1, AStr ''V1'']])
   \<and> loop_body (run_env NoFile [] (always ValueErrorRaised))
       ''tenant'' (JStr ''tok'') 1 (dict_row FIELDNAMES [''V1'', ''AP100'', ''1'', ''10'']) [] =
     (None,
      [processing 1 (dict_row FIELDNAMES [''V1'', ''AP100'', ''1'', ''10'']),
       Log INFO ''PUT %s | Payload: %s''
         [AStr (put_url (port_request ''V1'' ''AP100'' 1 10 (JStr ''tok''))),
          APayload (put_json (port_request ''V1'' ''AP100'' 1 10 (JStr ''tok'')))],
       Http (Put (port_request ''V1'' ''AP100'' 1 10 (JStr ''tok''))),
       Log ERROR ''Error processing row %d: %s | Row: %s''
         [AInt 1, AExc ValueError, ARow (dict_row FIELDNAMES [''V1'', ''AP100'', ''1'', ''10''])],
       Print ''Skipping row {idx}: {e}'' [AInt 1, AExc ValueError]])
   \<and> exit_status (fst (main (run_env (Lines [''tenant'', ''client'', ''secret''])
                [''V1,AP100,1,10'', ''V2,AP200,2,20''] (token_then (Response 500 NotJson))))) = 0"
proof -
  let ?e = "run_env (Lines [''tenant'', ''client'', ''secret''])
              [''V1,AP100,1,10'', ''V2,AP200,2,20''] (token_then (Response 500 NotJson))"
  let ?other = "run_env NoFile [] (always (Response 304 NotJson))"
  let ?raising = "run_env NoFile [] (always ValueErrorRaised)"
  let ?r = "[''V1'', ''AP100'', ''1'', ''10'']"
  let ?items = "[Record [''V2'', ''AP200'', ''2'', ''20'']]"
  let ?tr0 = "[Log INFO ''Loading credentials from file: %s'' [AStr ''credentials''],
               OpenFile ''credentials'']"
  have venue: "strip ''V1'' = ''V1''" and ap: "strip ''AP100'' = ''AP100''"
    by code_simp+
  have venue_ok: "strip ''V1'' \<noteq> []" and ap_ok: "strip ''AP100'' \<noteq> []"
    by (simp_all add: venue ap)
  have port: "py_int ''1'' = Some 1" and vlan: "py_int ''10'' = Some 10"
    by (simp_all add: py_int_eval)
  have lo: "(1::int) \<le> 10" and hi: "(10::int) \<le> 4094" by simp_all
  note valid = failed_request_is_reported [OF refl venue_ok ap_ok port vlan lo hi]
  have answer: "put_answer ?e ''V1'' ''AP100'' 1 10 (JStr ''tok'')
      ([] @ [processing 1 (dict_row FIELDNAMES ?r)]) = Response 500 NotJson"
    by code_simp
  have rejected: "raise_for_status 500" by code_simp
  have fails: "failed (put_answer ?e (strip ''V1'') (strip ''AP100'') 1 10 (JStr ''tok'')
      ([] @ [processing 1 (dict_row FIELDNAMES ?r)]))"
    by (simp only: venue ap answer failed.simps rejected)
  have w1: "loop_body ?e ''tenant'' (JStr ''tok'') 1 (dict_row FIELDNAMES ?r) [] =
     (None,
      [processing 1 (dict_row FIELDNAMES ?r),
       Log INFO ''PUT %s | Payload: %s''
         [AStr (put_url (port_request ''V1'' ''AP100'' 1 10 (JStr ''tok''))),
          APayload (put_json (port_request ''V1'' ''AP100'' 1 10 (JStr ''tok'')))],
       Http (Put (port_request ''V1'' ''AP100'' 1 10 (JStr ''tok''))),
       Log INFO ''Response [%s]: %s'' [AInt 500, ABody NotJson],
       Log ERROR ''Failed to configure port %s on %s at venue %s: %s''
         [AInt 1, AStr ''AP100'', AStr ''V1'', AExc RequestException],
       Print ''Failed to configure port {port} on {ap_serial} at venue {venue_id}: {e}''
         [AInt 1, AStr ''AP100'', AStr ''V1'', AExc RequestException]])"
    using valid [where tn = "''tenant''", THEN conjunct1, THEN mp, OF fails] answer
    by (simp add: venue ap)
  have answer2: "put_answer ?other (strip ''V1'') (strip ''AP100'') 1 10 (JStr ''tok'')
      ([] @ [processing 1 (dict_row FIELDNAMES ?r)]) = Response 304 NotJson"
    by code_simp
  have accepted: "\<not> raise_for_status 304" by code_simp
  have w2: "loop_body ?other ''tenant'' (JStr ''tok'') 1 (dict_row FIELDNAMES ?r) [] =
     (None,
      [processing 1 (dict_row FIELDNAMES ?r),
       Log INFO ''PUT %s | Payload: %s''
         [AStr (put_url (port_request ''V1'' ''AP100'' 1 10 (JStr ''tok''))),
          APayload (put_json (port_request ''V1'' ''AP100'' 1 10 (JStr ''tok'')))],
       Http (Put (port_request ''V1'' ''AP100'' 1 10 (JStr ''tok''))),
       Log INFO ''Response [%s]: %s'' [AInt 304, ABody NotJson],
       Log INFO ''Successfully configured AP %s port %s at venue %s''
         [AStr ''AP100'', AInt 1, AStr ''V1''],
       Print ''Configured AP {ap_serial} port {port} at venue {venue_id}''
         [AStr ''AP100'', AInt 1, AStr ''V1'']])"
    using valid [where tn = "''tenant''", THEN conjunct2, THEN conjunct1, THEN mp,
        OF conjI [OF answer2 accepted]]
    by (simp add: venue ap)
  have answer3: "put_answer ?raising (strip ''V1'') (strip ''AP100'') 1 10 (JStr ''tok'')
      ([] @ [processing 1 (dict_row FIELDNAMES ?r)]) = ValueErrorRaised"
    by code_simp
  have w3: "loop_body ?raising ''tenant'' (JStr ''tok'') 1 (dict_row FIELDNAMES ?r) [] =
     (None,
      [processing 1 (dict_row FIELDNAMES ?r),
       Log INFO ''PUT %s | Payload: %s''
         [AStr (put_url (port_request ''V1'' ''AP100'' 1 10 (JStr ''tok''))),
          APayload (put_json (port_request ''V1'' ''AP100'' 1 10 (JStr ''tok'')))],
       Http (Put (port_request ''V1'' ''AP100'' 1 10 (JStr ''tok''))),
       Log ERROR ''Error processing row %d: %s | Row: %s''
         [AInt 1, AExc ValueError, ARow (dict_row FIELDNAMES ?r)],
       Print ''Skipping row {idx}: {e}'' [AInt 1, AExc ValueError]])"
    using valid [where tn = "''tenant''", THEN conjunct2, THEN conjunct2, THEN conjunct1, THEN mp,
        OF answer3]
    by (simp add: venue ap)
  have arity: "length (argv ?e) = 2" by code_simp
  have creds: "credential_handling ?e [] = (Inr (''tenant'', ''client'', ''secret''), ?tr0)"
    by code_simp
  have "fst (get_bearer_token ?e ''tenant'' ''client'' ''secret'' ?tr0) = Inr (JStr ''tok'')"
    by code_simp
  then have token: "get_bearer_token ?e ''tenant'' ''client'' ''secret'' ?tr0 =
      (Inr (JStr ''tok''), snd (get_bearer_token ?e ''tenant'' ''client'' ''secret'' ?tr0))"
    by (simp add: prod_eq_iff)
  have csv: "files ?e (argv ?e ! 1) = Lines [''V1,AP100,1,10'', ''V2,AP200,2,20'']"
    by code_simp
  have reader: "csv_reader ?e (skip_comments [''V1,AP100,1,10'', ''V2,AP200,2,20'']) =
      [] @ Record ?r # ?items"
    by code_simp
  have all: "list_all complete ([] @ Record ?r # ?items)" by simp
  have w4: "exit_status (fst (main ?e)) = 0"
    using valid [THEN conjunct2, THEN conjunct2, THEN conjunct2, THEN conjunct2, THEN conjunct2,
        THEN mp, OF conjI [OF all conjI [OF arity conjI [OF creds conjI [OF token conjI [OF csv reader]]]]]]
    by simp
  from w1 w2 w3 w4 show ?thesis by simp
qed

subsection \<open>Credentials\<close>

text \<open>
  Claim C8. The file branch does not require three non-empty lines. With the
  credentials file \<open>tenant\<close>, empty line, \<open>secret\<close> (two non-empty lines) the run goes on
  to the token request, sent with an empty client id; with \<open>tenant\<close>, empty line,
  \<open>client\<close>, \<open>secret\<close> the empty line is taken for the client id and \<open>client\<close> for the
  secret. The prompt branch of the same \<open>if\<close> refuses the same three values: it ends
  with \<open>sys.exit\<close> and the message that all three are required, before any request.
\<close>

theorem blank_credential_line_accepted:
  "requests (snd (main (run_env (Lines [''tenant'', [], ''secret'']) [] (always ConnectionFailed)))) =
     [token_request ''tenant'' [] ''secret'']
   \<and> requests (snd (main (run_env (Lines [''tenant'', [], ''client'', ''secret'']) []
                           (always ConnectionFailed)))) =
     [token_request ''tenant'' [] ''client'']
   \<and> main ((run_env NoFile [] (always ConnectionFailed))\<lparr>stdin := [''tenant'', [], ''secret'']\<rparr>) =
     (SysExit 1,
      [Log INFO ''Prompting user for credentials.'' [],
       Input ''Enter Tenant ID: '', Input ''Enter Client ID: '', Input ''Enter Client Secret: '',
       Log ERROR ''Missing credential input from user.'' [],
       Stderr ''Tenant ID, Client ID, and Client Secret are required.''])"
  by code_simp

text \<open>
  What the file branch tests is the number of lines: fewer than 3 end the run before
  any request; with 3 or more the first three, stripped, are used as they are.
\<close>

lemma credentials_file_lines:
  assumes "length (argv e) = 2" and "credentials e = Lines ls"
  shows "(length ls < 3 \<longrightarrow>
            main e = (SysExit 1,
              [Log INFO ''Loading credentials from file: %s'' [AStr ''credentials''],
               OpenFile ''credentials'',
               Log ERROR ''Credentials file missing required lines.'' [],
               Stderr ''Credentials file must have at least 3 lines: Tenant ID, Client ID, Client Secret.''])
            \<and> requests (snd (main e)) = [])
    \<and> (3 \<le> length ls \<longrightarrow>
            credential_handling e [] =
              (Inr (strip (ls ! 0), strip (ls ! 1), strip (ls ! 2)),
               [Log INFO ''Loading credentials from file: %s'' [AStr ''credentials''],
                OpenFile ''credentials''])
            \<and> requests (snd (main e)) \<noteq> []
            \<and> hd (requests (snd (main e))) =
                token_request (strip (ls ! 0)) (strip (ls ! 1)) (strip (ls ! 2)))"
proof (cases "length ls < 3")
  case True
  then have "credential_handling e [] = (Inl (SysExit 1),
      [Log INFO ''Loading credentials from file: %s'' [AStr ''credentials''],
       OpenFile ''credentials'',
       Log ERROR ''Credentials file missing required lines.'' [],
       Stderr ''Credentials file must have at least 3 lines: Tenant ID, Client ID, Client Secret.''])"
    by (simp add: credential_handling_def assms(2))
  then show ?thesis
    using True main_credentials_failed [OF assms(1), of "SysExit 1"] by simp
next
  case False
  then have "0 < length ls" and "1 < length ls" and "2 < length ls"
    by auto
  then have c: "credential_handling e [] =
      (Inr (strip (ls ! 0), strip (ls ! 1), strip (ls ! 2)),
       [Log INFO ''Loading credentials from file: %s'' [AStr ''credentials''],
        OpenFile ''credentials''])"
    using False by (simp add: credential_handling_def assms(2) nth_map del: One_nat_def)
  obtain rs where "requests (snd (main e)) =
      token_request (strip (ls ! 0)) (strip (ls ! 1)) (strip (ls ! 2)) # rs"
    using main_first_request [OF assms(1) c] by blast
  with False c show ?thesis by simp
qed

subsection \<open>Exit status\<close>

text \<open>
  Claim C9, as stated, fails: with one argument and a CSV that exists, a credentials
  file of two lines gives the exit status 1, not 0.
\<close>

theorem short_credentials_exit_status:
  "length (argv (run_env (Lines [''tenant'', ''client'']) [''V1,AP100,1,10'']
                   (token_then (Response 200 NotJson)))) = 2
   \<and> files (run_env (Lines [''tenant'', ''client'']) [''V1,AP100,1,10'']
                   (token_then (Response 200 NotJson))) ''ports.csv'' = Lines [''V1,AP100,1,10'']
   \<and> exit_status (fst (main (run_env (Lines [''tenant'', ''client'']) [''V1,AP100,1,10'']
                   (token_then (Response 200 NotJson))))) = 1"
  by code_simp

text \<open>
  Claim C9, amended. With no argument or with two or more, the run prints the usage
  message, logs the error and ends with exit status 1; no file is opened and no request
  is sent. With one argument the exit status is 1 when loading the credentials fails,
  when authentication fails, and when the CSV is missing or cannot be opened; it is 0
  when the CSV is read to its end and every record is blank or has four fields or more,
  whatever happens to the rows (skips, failed requests).
\<close>

theorem exit_statuses:
  "(length (argv e) \<noteq> 2 \<longrightarrow>
      main e = (SysExit 1,
                [Print ''Usage: python configure_ap_ports.py <filename.csv>'' [],
                 Log ERROR ''Incorrect usage: missing CSV filename argument.'' []])
      \<and> exit_status (fst (main e)) = 1
      \<and> opened (snd (main e)) = [] \<and> requests (snd (main e)) = [])
   \<and> (length (argv e) = 2 \<and> fst (credential_handling e []) = Inl en
       \<longrightarrow> fst (main e) = en \<and> exit_status (fst (main e)) = 1)
   \<and> (length (argv e) = 2 \<and> credential_handling e [] = (Inr (t, c, s), tr)
        \<and> fst (get_bearer_token e t c s tr) = Inl en
       \<longrightarrow> fst (main e) = en \<and> exit_status (fst (main e)) = 1)
   \<and> (length (argv e) = 2 \<and> credential_handling e [] = (Inr (t, c, s), tr)
        \<and> get_bearer_token e t c s tr = (Inr tok, tr1)
        \<and> (files e (argv e ! 1) = NoFile \<or> files e (argv e ! 1) = Unreadable)
       \<longrightarrow> exit_status (fst (main e)) = 1)
   \<and> (length (argv e) = 2 \<and> credential_handling e [] = (Inr (t, c, s), tr)
        \<and> get_bearer_token e t c s tr = (Inr tok, tr1)
        \<and> files e (argv e ! 1) = Lines ls
        \<and> list_all complete (csv_reader e (skip_comments ls))
       \<longrightarrow> exit_status (fst (main e)) = 0)"
proof -
  have usage: "main e = (SysExit 1,
                [Print ''Usage: python configure_ap_ports.py <filename.csv>'' [],
                 Log ERROR ''Incorrect usage: missing CSV filename argument.'' []])
      \<and> exit_status (fst (main e)) = 1
      \<and> opened (snd (main e)) = [] \<and> requests (snd (main e)) = []"
    if "length (argv e) \<noteq> 2"
    using that by (simp add: main_def)
  have creds: "fst (main e) = en \<and> exit_status (fst (main e)) = 1"
    if "length (argv e) = 2" "fst (credential_handling e []) = Inl en"
    using main_credentials_failed [OF that] credential_handling_exit [OF that(2)] by simp
  have auth: "fst (main e) = en \<and> exit_status (fst (main e)) = 1"
    if "length (argv e) = 2" "credential_handling e [] = (Inr (t, c, s), tr)"
      "fst (get_bearer_token e t c s tr) = Inl en"
    using main_auth_failed [OF that] get_bearer_token_exit [OF that(3)] by simp
  have nocsv: "exit_status (fst (main e)) = 1"
    if "length (argv e) = 2" "credential_handling e [] = (Inr (t, c, s), tr)"
      "get_bearer_token e t c s tr = (Inr tok, tr1)"
      "files e (argv e ! 1) = NoFile \<or> files e (argv e ! 1) = Unreadable"
    using main_csv_unavailable [OF that] by simp
  have finished: "exit_status (fst (main e)) = 0"
    if "length (argv e) = 2" "credential_handling e [] = (Inr (t, c, s), tr)"
      "get_bearer_token e t c s tr = (Inr tok, tr1)"
      "files e (argv e ! 1) = Lines ls"
      "list_all complete (csv_reader e (skip_comments ls))"
    using main_returns [OF that] by simp
  from usage creds auth nocsv finished show ?thesis by blast
qed

theorem exit_statuses_witness:
  "exit_status (fst (main ((run_env (Lines [''tenant'', ''client'', ''secret'']) [''V1,AP100,1,10'']
       (token_then (Response 200 NotJson)))\<lparr>argv := [''configure_ap_ports.py'']\<rparr>))) = 1
   \<and> snd (main ((run_env (Lines [''tenant'', ''client'', ''secret'']) [''V1,AP100,1,10'']
       (token_then (Response 200 NotJson)))\<lparr>argv := [''configure_ap_ports.py'', ''a.csv'', ''b.csv'']\<rparr>)) =
       [Print ''Usage: python configure_ap_ports.py <filename.csv>'' [],
        Log ERROR ''Incorrect usage: missing CSV filename argument.'' []]
   \<and> exit_status (fst (main (run_env Unreadable [''V1,AP100,1,10'']
       (token_then (Response 200 NotJson))))) = 1
   \<and> exit_status (fst (main (run_env (Lines [''tenant'', ''client'', ''secret'']) [''V1,AP100,1,10'']
       (always ConnectionFailed)))) = 1
   \<and> exit_status (fst (main ((run_env (Lines [''tenant'', ''client'', ''secret'']) [''V1,AP100,1,10'']
       (token_then (Response 200 NotJson)))\<lparr>argv := [''configure_ap_ports.py'', ''absent.csv'']\<rparr>))) = 1
   \<and> exit_status (fst (main (run_env (Lines [''tenant'', ''client'', ''secret''])
       [''#header'', ''V1,AP100,1,10'', ''V2,AP200,2,5000'', ''V3,AP300,x,5'']
       (token_then (Response 500 NotJson))))) = 0"
proof -
  let ?base = "run_env (Lines [''tenant'', ''client'', ''secret'']) [''V1,AP100,1,10'']
       (token_then (Response 200 NotJson))"
  let ?none = "?base\<lparr>argv := [''configure_ap_ports.py'']\<rparr>"
  let ?two = "?base\<lparr>argv := [''configure_ap_ports.py'', ''a.csv'', ''b.csv'']\<rparr>"
  let ?nocreds = "run_env Unreadable [''V1,AP100,1,10''] (token_then (Response 200 NotJson))"
  let ?noauth = "run_env (Lines [''tenant'', ''client'', ''secret'']) [''V1,AP100,1,10'']
       (always ConnectionFailed)"
  let ?nocsv = "?base\<lparr>argv := [''configure_ap_ports.py'', ''absent.csv'']\<rparr>"
  let ?run = "run_env (Lines [''tenant'', ''client'', ''secret''])
       [''#header'', ''V1,AP100,1,10'', ''V2,AP200,2,5000'', ''V3,AP300,x,5'']
       (token_then (Response 500 NotJson))"
  let ?tr0 = "[Log INFO ''Loading credentials from file: %s'' [AStr ''credentials''],
               OpenFile ''credentials'']"
  have n0: "length (argv ?none) \<noteq> 2" and n3: "length (argv ?two) \<noteq> 2" by code_simp+
  have a1: "length (argv ?nocreds) = 2" and a2: "length (argv ?noauth) = 2"
    and a3: "length (argv ?nocsv) = 2" and a4: "length (argv ?run) = 2"
    by code_simp+
  have c1: "fst (credential_handling ?nocreds []) = Inl (SysExit 1)" by code_simp
  have c2: "credential_handling ?noauth [] = (Inr (''tenant'', ''client'', ''secret''), ?tr0)"
    and c3: "credential_handling ?nocsv [] = (Inr (''tenant'', ''client'', ''secret''), ?tr0)"
    and c4: "credential_handling ?run [] = (Inr (''tenant'', ''client'', ''secret''), ?tr0)"
    by code_simp+
  have t2: "fst (get_bearer_token ?noauth ''tenant'' ''client'' ''secret'' ?tr0) = Inl (SysExit 1)"
    by code_simp
  have "fst (get_bearer_token ?nocsv ''tenant'' ''client'' ''secret'' ?tr0) = Inr (JStr ''tok'')"
    by code_simp
  then have t3: "get_bearer_token ?nocsv ''tenant'' ''client'' ''secret'' ?tr0 =
      (Inr (JStr ''tok''), snd (get_bearer_token ?nocsv ''tenant'' ''client'' ''secret'' ?tr0))"
    by (simp add: prod_eq_iff)
  have "fst (get_bearer_token ?run ''tenant'' ''client'' ''secret'' ?tr0) = Inr (JStr ''tok'')"
    by code_simp
  then have t4: "get_bearer_token ?run ''tenant'' ''client'' ''secret'' ?tr0 =
      (Inr (JStr ''tok''), snd (get_bearer_token ?run ''tenant'' ''client'' ''secret'' ?tr0))"
    by (simp add: prod_eq_iff)
  have f3: "files ?nocsv (argv ?nocsv ! 1) = NoFile \<or> files ?nocsv (argv ?nocsv ! 1) = Unreadable"
    by code_simp
  have f4: "files ?run (argv ?run ! 1) =
      Lines [''#header'', ''V1,AP100,1,10'', ''V2,AP200,2,5000'', ''V3,AP300,x,5'']"
    by code_simp
  have r4: "list_all complete (csv_reader ?run
      (skip_comments [''#header'', ''V1,AP100,1,10'', ''V2,AP200,2,5000'', ''V3,AP300,x,5'']))"
    by code_simp
  have w0: "exit_status (fst (main ?none)) = 1"
    using exit_statuses [THEN conjunct1, THEN mp, OF n0] by simp
  have w3: "snd (main ?two) =
       [Print ''Usage: python configure_ap_ports.py <filename.csv>'' [],
        Log ERROR ''Incorrect usage: missing CSV filename argument.'' []]"
    using exit_statuses [THEN conjunct1, THEN mp, OF n3] by simp
  have w1: "exit_status (fst (main ?nocreds)) = 1"
    using exit_statuses [THEN conjunct2, THEN conjunct1, THEN mp, OF conjI [OF a1 c1]]
    by simp
  have w2: "exit_status (fst (main ?noauth)) = 1"
    using exit_statuses [THEN conjunct2, THEN conjunct2, THEN conjunct1, THEN mp,
        OF conjI [OF a2 conjI [OF c2 t2]]]
    by simp
  have w4: "exit_status (fst (main ?nocsv)) = 1"
    using exit_statuses [THEN conjunct2, THEN conjunct2, THEN conjunct2, THEN conjunct1, THEN mp,
        OF conjI [OF a3 conjI [OF c3 conjI [OF t3 f3]]]]
    by simp
  have w5: "exit_status (fst (main ?run)) = 0"
    using exit_statuses [THEN conjunct2, THEN conjunct2, THEN conjunct2, THEN conjunct2, THEN mp,
        OF conjI [OF a4 conjI [OF c4 conjI [OF t4 conjI [OF f4 r4]]]]]
    by simp
  from w0 w3 w1 w2 w4 w5 show ?thesis by simp
qed

subsection \<open>The port number\<close>

text \<open>
  Claim C10. No range is imposed on \<open>port_id\<close>: for a row of four fields or more with
  non-empty stripped identifiers and a VLAN from 1 to 4094, whatever integer \<open>p\<close> the
  port field parses to, the loop body sends exactly one request, a PUT whose path has
  the decimal text of \<open>p\<close> as its port segment.
\<close>

theorem port_id_unchecked:
  assumes "r = venue # ap # port_s # vlan_s # extra"
    and "strip venue \<noteq> []" and "strip ap \<noteq> []"
    and "py_int vlan_s = Some v" and "1 \<le> v" and "v \<le> 4094"
    and "py_int port_s = Some p"
  shows "requests (snd (loop_body e tn tok idx (dict_row FIELDNAMES r) tr)) =
      requests tr @ [Put (port_request (strip venue) (strip ap) p v tok)]
    \<and> put_url (port_request (strip venue) (strip ap) p v tok) =
      ''https://api.ruckus.cloud/venues/'' @ strip venue @ ''/aps/'' @ strip ap
        @ ''/lanPorts/'' @ py_str p @ ''/settings''"
proof -
  have row: "dict_row FIELDNAMES r = dict_row FIELDNAMES (venue # ap # port_s # vlan_s # extra)"
    by (simp add: assms(1))
  have "requests (snd (loop_body e tn tok idx (dict_row FIELDNAMES r) tr)) =
      requests tr @ [Put (port_request (strip venue) (strip ap) p v tok)]"
    using assms(2-7)
    by (simp add: loop_body_complete [OF row] requests_configure_ap_port requests_append
        processing_def skip_error_def split: option.splits)
  moreover have "put_url (port_request (strip venue) (strip ap) p v tok) =
      ''https://api.ruckus.cloud/venues/'' @ strip venue @ ''/aps/'' @ strip ap
        @ ''/lanPorts/'' @ py_str p @ ''/settings''"
    by (simp add: port_request_def)
  ultimately show ?thesis by blast
qed

theorem port_id_unchecked_witness:
  "requests (snd (loop_body (run_env NoFile [] (always ConnectionFailed)) ''tenant'' (JStr ''tok'') 1
       (dict_row FIELDNAMES [''V1'', ''AP100'', ''-7'', ''10'']) [])) =
     [Put (port_request ''V1'' ''AP100'' (- 7) 10 (JStr ''tok''))]
   \<and> put_url (port_request ''V1'' ''AP100'' (- 7) 10 (JStr ''tok'')) =
     ''https://api.ruckus.cloud/venues/V1/aps/AP100/lanPorts/-7/settings''
   \<and> put_url (port_request ''V1'' ''AP100'' 0 10 (JStr ''tok'')) =
     ''https://api.ruckus.cloud/venues/V1/aps/AP100/lanPorts/0/settings''
   \<and> put_url (port_request ''V1'' ''AP100'' 18446744073709551616 10 (JStr ''tok'')) =
     ''https://api.ruckus.cloud/venues/V1/aps/AP100/lanPorts/18446744073709551616/settings''"
proof -
  have venue: "strip ''V1'' = ''V1''" and ap: "strip ''AP100'' = ''AP100''"
    by code_simp+
  have venue_ok: "strip ''V1'' \<noteq> []" and ap_ok: "strip ''AP100'' \<noteq> []"
    by (simp_all add: venue ap)
  have vlan: "py_int ''10'' = Some 10" by code_simp
  have lo: "(1::int) \<le> 10" and hi: "(10::int) \<le> 4094" by simp_all
  have negative: "py_int ''-7'' = Some (- 7)" by (simp add: py_int_eval)
  have zero: "py_int ''0'' = Some 0" by (simp add: py_int_eval)
  have large: "py_int ''18446744073709551616'' = Some 18446744073709551616"
    by (simp add: py_int_eval)
  have s1: "py_str (- 7) = ''-7''" and s2: "py_str 0 = ''0''"
    and s3: "py_str 18446744073709551616 = ''18446744073709551616''"
    by (simp_all add: py_str_eval)
  show ?thesis
    using port_id_unchecked [OF refl venue_ok ap_ok vlan lo hi negative,
        where extra = "[]" and e = "run_env NoFile [] (always ConnectionFailed)"
          and tn = "''tenant''" and tok = "JStr ''tok''" and idx = 1 and tr = "[]"]
      port_id_unchecked [OF refl venue_ok ap_ok vlan lo hi zero,
        where extra = "[]" and e = "run_env NoFile [] (always ConnectionFailed)"
          and tn = "''tenant''" and tok = "JStr ''tok''" and idx = 1 and tr = "[]"]
      port_id_unchecked [OF refl venue_ok ap_ok vlan lo hi large,
        where extra = "[]" and e = "run_env NoFile [] (always ConnectionFailed)"
          and tn = "''tenant''" and tok = "JStr ''tok''" and idx = 1 and tr = "[]"]
    by (simp add: venue ap s1 s2 s3)
qed

end
